theory Spec2Isabelle
  imports Complex_Main
begin

section \<open>Python values used by the two clients\<close>

text \<open>
  A Python \<open>str\<close> is modelled as a \<open>string\<close>; a character stands for a code point
  below 256. JSON documents (\<open>response.json()\<close>, \<open>request.get_json()\<close>) are values of
  the datatype \<open>json\<close>; \<open>JNull\<close> is Python's \<open>None\<close>, and a \<open>JObj\<close> is a dict given
  as an association list that is looked up with \<open>map_of\<close>.
\<close>

datatype json =
    JNull
  | JBool bool
  | JNum rat
  | JStr string
  | JArr "json list"
  | JObj "(string \<times> json) list"

text \<open>
  The exceptions that occur, all of them subclasses of \<open>Exception\<close>.
  \<open>RequestException\<close> stands for the class of the requests library and all its
  subclasses (\<open>ConnectionError\<close>, \<open>Timeout\<close>, \<open>HTTPError\<close>, \<open>InvalidURL\<close>,
  \<open>JSONDecodeError\<close>); its argument is the text \<open>str(e)\<close>. \<open>LocationParseError\<close> is
  the exception of urllib3, a \<open>ValueError\<close> and no \<open>RequestException\<close>, with the
  location that could not be parsed.
\<close>

datatype exn =
    RequestException string
  | LocationParseError string
  | KeyError string
  | IndexError
  | TypeError
  | AttributeError
  | EOFError

type_synonym 'a res = "exn + 'a"

definition bind_res :: "'a res \<Rightarrow> ('a \<Rightarrow> 'b res) \<Rightarrow> 'b res" where
  "bind_res m f = (case m of Inl e \<Rightarrow> Inl e | Inr v \<Rightarrow> f v)"

text \<open>\<open>str.isspace\<close> on the code points below 256.\<close>

definition is_space :: "char \<Rightarrow> bool" where
  "is_space c =
     (let n = (of_char c :: nat)
      in (9 \<le> n \<and> n \<le> 13) \<or> (28 \<le> n \<and> n \<le> 32) \<or> n = 133 \<or> n = 160)"

definition str_strip :: "string \<Rightarrow> string" where
  "str_strip s = rev (dropWhile is_space (rev (dropWhile is_space s)))"

definition lower_char :: "char \<Rightarrow> char" where
  "lower_char c =
     (let n = (of_char c :: nat)
      in if (65 \<le> n \<and> n \<le> 90) \<or> (192 \<le> n \<and> n \<le> 222 \<and> n \<noteq> 215)
         then char_of (n + 32) else c)"

definition str_lower :: "string \<Rightarrow> string" where
  "str_lower s = map lower_char s"

text \<open>Truth value of a Python object in \<open>if response:\<close>.\<close>

fun truthy :: "json \<Rightarrow> bool" where
  "truthy JNull = False"
| "truthy (JBool b) = b"
| "truthy (JNum q) = (q \<noteq> 0)"
| "truthy (JStr s) = (s \<noteq> [])"
| "truthy (JArr xs) = (xs \<noteq> [])"
| "truthy (JObj kvs) = (kvs \<noteq> [])"

text \<open>\<open>obj[key]\<close> with a string key, and \<open>obj[i]\<close> with a non-negative index.\<close>

fun getitem_key :: "json \<Rightarrow> string \<Rightarrow> json res" where
  "getitem_key (JObj kvs) k =
     (case map_of kvs k of None \<Rightarrow> Inl (KeyError k) | Some v \<Rightarrow> Inr v)"
| "getitem_key _ k = Inl TypeError"

fun str_of_nat :: "nat \<Rightarrow> string" where
  "str_of_nat n =
     (if n < 10 then [char_of (48 + n)]
      else str_of_nat (n div 10) @ [char_of (48 + n mod 10)])"

declare str_of_nat.simps [simp del]

fun getitem_idx :: "json \<Rightarrow> nat \<Rightarrow> json res" where
  "getitem_idx (JArr xs) i = (if i < length xs then Inr (xs ! i) else Inl IndexError)"
| "getitem_idx (JStr s) i = (if i < length s then Inr (JStr [s ! i]) else Inl IndexError)"
| "getitem_idx (JObj kvs) i = Inl (KeyError (str_of_nat i))"
| "getitem_idx _ i = Inl TypeError"

text \<open>\<open>obj.get(key, default)\<close>: only a dict has the method.\<close>

fun dict_get :: "json \<Rightarrow> string \<Rightarrow> json \<Rightarrow> json res" where
  "dict_get (JObj kvs) k d = (case map_of kvs k of None \<Rightarrow> Inr d | Some v \<Rightarrow> Inr v)"
| "dict_get _ k d = Inl AttributeError"

text \<open>\<open>obj.strip()\<close>: only a \<open>str\<close> has the method.\<close>

fun strip_method :: "json \<Rightarrow> string res" where
  "strip_method (JStr s) = Inr (str_strip s)"
| "strip_method _ = Inl AttributeError"

section \<open>The HTTP exchange\<close>

text \<open>
  A message of a transcript is the dict \<open>{"role": r, "content": c}\<close>; the content of an
  assistant message is whatever JSON value the service sent.
\<close>

record message =
  role :: string
  content :: json

definition user_message :: "string \<Rightarrow> message" where
  "user_message s = \<lparr>role = ''user'', content = JStr s\<rparr>"

definition assistant_message :: "json \<Rightarrow> message" where
  "assistant_message c = \<lparr>role = ''assistant'', content = c\<rparr>"

datatype prompt_input = Messages "message list" | Prompt string

record payload =
  p_model :: string
  p_input :: prompt_input
  max_tokens :: int
  temperature :: rat
  stream :: bool

datatype http_method = GET | POST

record request =
  http_method :: http_method
  url :: string
  headers :: "(string \<times> string) list"
  json_body :: "payload option"
  timeout :: nat

text \<open>
  The response of the service: its status line and its body. The body is a JSON
  document, or a text that is none (an HTML page, the empty body), given with the
  message of the decoder that rejects it.
\<close>

datatype http_body = JsonBody json | NotJson string

record response =
  status_code :: nat
  reason :: string
  body :: http_body

text \<open>
  What one call of \<open>requests.get\<close> or \<open>requests.post\<close> ends in: the call raises an
  exception, or it returns a response. The exception is a \<open>RequestException\<close> for a
  timeout, a refused connection, a DNS failure or a URL without scheme; it is an
  exception of another class where the library lets one through, as it does with the
  \<open>LocationParseError\<close> of urllib3 for a host with an empty label (\<open>10.0.0..5\<close>).

  The service and the network, seen from the client, give this outcome for a request;
  the outcome may depend on the requests made before, which are the first argument.
\<close>

datatype http_outcome = Fails exn | Returned response

type_synonym endpoint = "request list \<Rightarrow> request \<Rightarrow> http_outcome"

text \<open>
  The effects of the clients: the requests sent so far, in order, and the diagnostic
  lines printed on standard output by the client operations. (Banners, prompts and the
  echo of replies printed by the front ends are not modelled.)
\<close>

record io =
  sent :: "request list"
  stdout :: "string list"

definition requests_send :: "endpoint \<Rightarrow> request \<Rightarrow> io \<Rightarrow> response res \<times> io" where
  "requests_send ep req w =
     (case ep (sent w) req of
        Fails e \<Rightarrow> Inl e
      | Returned r \<Rightarrow> Inr r,
      w\<lparr>sent := sent w @ [req]\<rparr>)"

text \<open>
  \<open>Response.json\<close> of the requests library (version 2.27 and later): the error of the
  decoder is raised as \<open>requests.exceptions.JSONDecodeError\<close>, a \<open>RequestException\<close>.
\<close>

definition response_json :: "response \<Rightarrow> json res" where
  "response_json r =
     (case body r of
        JsonBody j \<Rightarrow> Inr j
      | NotJson msg \<Rightarrow> Inl (RequestException msg))"

text \<open>\<open>Response.raise_for_status\<close> of the requests library: an HTTPError for 4xx and 5xx.\<close>

definition raise_for_status :: "string \<Rightarrow> response \<Rightarrow> unit res" where
  "raise_for_status u r =
     (let s = status_code r in
      if 400 \<le> s \<and> s < 500
      then Inl (RequestException
                 (str_of_nat s @ '' Client Error: '' @ reason r @ '' for url: '' @ u))
      else if 500 \<le> s \<and> s < 600
      then Inl (RequestException
                 (str_of_nat s @ '' Server Error: '' @ reason r @ '' for url: '' @ u))
      else Inr ())"

definition print_line :: "string \<Rightarrow> io \<Rightarrow> io" where
  "print_line s w = w\<lparr>stdout := stdout w @ [s]\<rparr>"

section \<open>Endpoint resolution\<close>

text \<open>
  \<open>os.environ\<close> is a map from names to values. The outcome of the
  \<open>kubectl get svc vllm-service\<close> query run by \<open>subprocess.run\<close> is either a completed
  process with its return code and standard output, or an error raised by the call
  (\<open>TimeoutExpired\<close> after 10 seconds, \<open>FileNotFoundError\<close> when the tool is absent).
\<close>

type_synonym environ = "string \<rightharpoonup> string"

datatype proc_outcome = Completed int string | Raised string

record vllm_client =
  base_url :: string
  model :: string

definition MODEL_NAME :: string where
  "MODEL_NAME = ''Qwen/Qwen2.5-1.5B-Instruct''"

text \<open>\<open>VLLMClient.__init__\<close> of the command-line demo.\<close>

definition vllm_client_init :: "string option \<Rightarrow> environ \<Rightarrow> proc_outcome \<Rightarrow> vllm_client" where
  "vllm_client_init override env kubectl =
     \<lparr>base_url =
        (case override of
           Some u \<Rightarrow> u
         | None \<Rightarrow>
            (let vllm_ip = env ''VLLM_IP'' in
             if (case vllm_ip of None \<Rightarrow> False | Some ip \<Rightarrow> ip \<noteq> [])
             then ''http://'' @ the vllm_ip @ '':8080''
             else
               (case kubectl of
                  Completed returncode out \<Rightarrow>
                    if returncode = 0 \<and> str_strip out \<noteq> []
                    then ''http://'' @ str_strip out @ '':8080''
                    else ''http://localhost:8080''
                | Raised e \<Rightarrow> ''http://localhost:8080''))),
      model = ''Qwen/Qwen2.5-1.5B-Instruct''\<rparr>"

text \<open>\<open>get_vllm_base_url\<close> and \<open>VLLMWebClient.__init__\<close> of the web demo.\<close>

definition get_vllm_base_url :: "environ \<Rightarrow> proc_outcome \<Rightarrow> string" where
  "get_vllm_base_url env kubectl =
     (let vllm_ip = env ''VLLM_IP'' in
      if (case vllm_ip of None \<Rightarrow> False | Some ip \<Rightarrow> ip \<noteq> [])
      then ''http://'' @ the vllm_ip @ '':8080''
      else
        (case kubectl of
           Completed returncode out \<Rightarrow>
             if returncode = 0 \<and> str_strip out \<noteq> []
             then ''http://'' @ str_strip out @ '':8080''
             else ''http://localhost:8080''
         | Raised e \<Rightarrow> ''http://localhost:8080''))"

definition vllm_web_client_init :: "string option \<Rightarrow> string \<Rightarrow> vllm_client" where
  "vllm_web_client_init override VLLM_BASE_URL =
     \<lparr>base_url =
        (if (case override of None \<Rightarrow> False | Some u \<Rightarrow> u \<noteq> [])
         then the override else VLLM_BASE_URL),
      model = MODEL_NAME\<rparr>"

section \<open>The client of the command-line demo\<close>

definition health_request :: "vllm_client \<Rightarrow> request" where
  "health_request c =
     \<lparr>http_method = GET, url = base_url c @ ''/health'', headers = [],
      json_body = None, timeout = 10\<rparr>"

definition health_check :: "endpoint \<Rightarrow> vllm_client \<Rightarrow> io \<Rightarrow> bool res \<times> io" where
  "health_check ep c w =
     (case requests_send ep (health_request c) w of
        (Inr resp, w1) \<Rightarrow> (Inr (status_code resp = 200), w1)
      | (Inl (RequestException e), w1) \<Rightarrow> (Inr False, w1)
      | (Inl other, w1) \<Rightarrow> (Inl other, w1))"

definition models_request :: "vllm_client \<Rightarrow> request" where
  "models_request c =
     \<lparr>http_method = GET, url = base_url c @ ''/v1/models'', headers = [],
      json_body = None, timeout = 10\<rparr>"

definition get_models :: "endpoint \<Rightarrow> vllm_client \<Rightarrow> io \<Rightarrow> json res \<times> io" where
  "get_models ep c w =
     (case requests_send ep (models_request c) w of (r, w1) \<Rightarrow>
        (case bind_res r (\<lambda>resp.
                bind_res (raise_for_status (url (models_request c)) resp) (\<lambda>_.
                  bind_res (response_json resp) (\<lambda>result.
                    getitem_key result ''data''))) of
           Inr v \<Rightarrow> (Inr v, w1)
         | Inl (RequestException e) \<Rightarrow>
             (Inr (JArr []), print_line (''Error getting models: '' @ e) w1)
         | Inl other \<Rightarrow> (Inl other, w1)))"

definition chat_request ::
  "vllm_client \<Rightarrow> message list \<Rightarrow> int \<Rightarrow> rat \<Rightarrow> request" where
  "chat_request c msgs mt temp =
     \<lparr>http_method = POST, url = base_url c @ ''/v1/chat/completions'',
      headers = [(''Content-Type'', ''application/json'')],
      json_body = Some \<lparr>p_model = model c, p_input = Messages msgs, max_tokens = mt,
                        temperature = temp, stream = False\<rparr>,
      timeout = 30\<rparr>"

text \<open>\<open>result["choices"][0]["message"]["content"]\<close>\<close>

definition chat_content :: "json \<Rightarrow> json res" where
  "chat_content result =
     bind_res (getitem_key result ''choices'') (\<lambda>choices.
       bind_res (getitem_idx choices 0) (\<lambda>choice.
         bind_res (getitem_key choice ''message'') (\<lambda>m.
           getitem_key m ''content'')))"

definition chat_completion ::
  "endpoint \<Rightarrow> vllm_client \<Rightarrow> message list \<Rightarrow> int \<Rightarrow> rat \<Rightarrow> io \<Rightarrow> json res \<times> io" where
  "chat_completion ep c msgs mt temp w =
     (case requests_send ep (chat_request c msgs mt temp) w of (r, w1) \<Rightarrow>
        (case bind_res r (\<lambda>resp.
                bind_res (raise_for_status (url (chat_request c msgs mt temp)) resp) (\<lambda>_.
                  bind_res (response_json resp) (\<lambda>result.
                    chat_content result))) of
           Inr v \<Rightarrow> (Inr v, w1)
         | Inl (RequestException e) \<Rightarrow>
             (Inr JNull, print_line (''Error in chat completion: '' @ e) w1)
         | Inl other \<Rightarrow> (Inl other, w1)))"

definition completion_request ::
  "vllm_client \<Rightarrow> string \<Rightarrow> int \<Rightarrow> rat \<Rightarrow> request" where
  "completion_request c prompt mt temp =
     \<lparr>http_method = POST, url = base_url c @ ''/v1/completions'',
      headers = [(''Content-Type'', ''application/json'')],
      json_body = Some \<lparr>p_model = model c, p_input = Prompt prompt, max_tokens = mt,
                        temperature = temp, stream = False\<rparr>,
      timeout = 30\<rparr>"

text \<open>\<open>result["choices"][0]["text"]\<close>\<close>

definition completion_text :: "json \<Rightarrow> json res" where
  "completion_text result =
     bind_res (getitem_key result ''choices'') (\<lambda>choices.
       bind_res (getitem_idx choices 0) (\<lambda>choice.
         getitem_key choice ''text''))"

definition completion ::
  "endpoint \<Rightarrow> vllm_client \<Rightarrow> string \<Rightarrow> int \<Rightarrow> rat \<Rightarrow> io \<Rightarrow> json res \<times> io" where
  "completion ep c prompt mt temp w =
     (case requests_send ep (completion_request c prompt mt temp) w of (r, w1) \<Rightarrow>
        (case bind_res r (\<lambda>resp.
                bind_res (raise_for_status (url (completion_request c prompt mt temp)) resp) (\<lambda>_.
                  bind_res (response_json resp) (\<lambda>result.
                    completion_text result))) of
           Inr v \<Rightarrow> (Inr v, w1)
         | Inl (RequestException e) \<Rightarrow>
             (Inr JNull, print_line (''Error in completion: '' @ e) w1)
         | Inl other \<Rightarrow> (Inl other, w1)))"

section \<open>The client of the web demo\<close>

definition web_health_request :: "vllm_client \<Rightarrow> request" where
  "web_health_request c =
     \<lparr>http_method = GET, url = base_url c @ ''/health'', headers = [],
      json_body = None, timeout = 5\<rparr>"

definition web_health_check :: "endpoint \<Rightarrow> vllm_client \<Rightarrow> io \<Rightarrow> bool res \<times> io" where
  "web_health_check ep c w =
     (case requests_send ep (web_health_request c) w of
        (Inr resp, w1) \<Rightarrow> (Inr (status_code resp = 200), w1)
      | (Inl (RequestException e), w1) \<Rightarrow> (Inr False, w1)
      | (Inl other, w1) \<Rightarrow> (Inl other, w1))"

definition web_get_models :: "endpoint \<Rightarrow> vllm_client \<Rightarrow> io \<Rightarrow> json res \<times> io" where
  "web_get_models ep c w =
     (case requests_send ep (models_request c) w of (r, w1) \<Rightarrow>
        (case bind_res r (\<lambda>resp.
                bind_res (raise_for_status (url (models_request c)) resp) (\<lambda>_.
                  bind_res (response_json resp) (\<lambda>result.
                    getitem_key result ''data''))) of
           Inr v \<Rightarrow> (Inr v, w1)
         | Inl (RequestException e) \<Rightarrow> (Inr (JObj [(''error'', JStr e)]), w1)
         | Inl other \<Rightarrow> (Inl other, w1)))"

text \<open>
  The two dicts the web client returns: \<open>{"success": True, "content": c, "usage": u}\<close>
  and \<open>{"success": False, "error": e}\<close>.
\<close>

datatype completion_result = Success json json | Failure string

definition web_chat_completion ::
  "endpoint \<Rightarrow> vllm_client \<Rightarrow> message list \<Rightarrow> int \<Rightarrow> rat \<Rightarrow> io
     \<Rightarrow> completion_result res \<times> io" where
  "web_chat_completion ep c msgs mt temp w =
     (case requests_send ep (chat_request c msgs mt temp) w of (r, w1) \<Rightarrow>
        (case bind_res r (\<lambda>resp.
                bind_res (raise_for_status (url (chat_request c msgs mt temp)) resp) (\<lambda>_.
                  bind_res (response_json resp) (\<lambda>result.
                    bind_res (chat_content result) (\<lambda>cont.
                      bind_res (dict_get result ''usage'' (JObj [])) (\<lambda>usage.
                        Inr (Success cont usage)))))) of
           Inr v \<Rightarrow> (Inr v, w1)
         | Inl (RequestException e) \<Rightarrow> (Inr (Failure e), w1)
         | Inl other \<Rightarrow> (Inl other, w1)))"

section \<open>The web front end\<close>

text \<open>
  The session of the web framework, as the routes use it. The keys of the session dict
  are \<open>session_id\<close> and \<open>chat_history\<close>. The framework loads the dict from the signed
  cookie of the browser when a request comes in, and writes it back to the cookie when
  the request ends only if an item was assigned during the request (the flag
  \<open>modified\<close>); changing a stored list in place does not set the flag.
\<close>

record session_data =
  session_id :: "string option"
  chat_history :: "message list option"

record flask_session =
  store :: session_data
  modified :: bool

definition open_session :: "session_data \<Rightarrow> flask_session" where
  "open_session cookie = \<lparr>store = cookie, modified = False\<rparr>"

definition save_session :: "session_data \<Rightarrow> flask_session \<Rightarrow> session_data" where
  "save_session cookie s = (if modified s then store s else cookie)"

record http_response =
  status :: nat
  rbody :: json

definition jsonify :: "json \<Rightarrow> nat \<Rightarrow> http_response" where
  "jsonify j st = \<lparr>status = st, rbody = j\<rparr>"

text \<open>The route \<open>/\<close>; the fresh identifier of \<open>uuid.uuid4()\<close> is a parameter.\<close>

definition index :: "string \<Rightarrow> flask_session \<Rightarrow> flask_session" where
  "index uuid s =
     (if session_id (store s) = None
      then s\<lparr>store := \<lparr>session_id = Some uuid, chat_history = Some []\<rparr>, modified := True\<rparr>
      else s)"

text \<open>
  The route \<open>/api/chat\<close>; \<open>data\<close> is the value of \<open>request.get_json()\<close>. When the
  session has the key \<open>chat_history\<close>, the list the route appends to is the list stored
  in the session, so the append shows in the session of this request, without the flag
  \<open>modified\<close>; otherwise it is the fresh list of the default.
\<close>

definition api_chat ::
  "endpoint \<Rightarrow> vllm_client \<Rightarrow> json \<Rightarrow> flask_session \<Rightarrow> io
     \<Rightarrow> http_response res \<times> flask_session \<times> io" where
  "api_chat ep vllm_client data s w =
     (case bind_res (dict_get data ''message'' (JStr [])) strip_method of
        Inl e \<Rightarrow> (Inl e, s, w)
      | Inr message \<Rightarrow>
          if message = []
          then (Inr (jsonify (JObj [(''error'', JStr ''Message cannot be empty'')]) 400), s, w)
          else
            (let history = (case chat_history (store s) of None \<Rightarrow> [] | Some h \<Rightarrow> h)
                             @ [user_message message];
                 s1 = (case chat_history (store s) of
                         None \<Rightarrow> s
                       | Some h \<Rightarrow> s\<lparr>store := (store s)\<lparr>chat_history := Some history\<rparr>\<rparr>)
             in case web_chat_completion ep vllm_client history 200 (7 / 10) w of
                  (Inl e, w1) \<Rightarrow> (Inl e, s1, w1)
                | (Inr (Success cont usage), w1) \<Rightarrow>
                    (Inr (jsonify (JObj [(''success'', JBool True), (''response'', cont),
                                          (''usage'', usage)]) 200),
                     s1\<lparr>store := (store s1)\<lparr>chat_history :=
                                      Some (history @ [assistant_message cont])\<rparr>,
                        modified := True\<rparr>,
                     w1)
                | (Inr (Failure e), w1) \<Rightarrow>
                    (Inr (jsonify (JObj [(''success'', JBool False), (''error'', JStr e)]) 500),
                     s1, w1)))"

text \<open>The route \<open>/api/clear\<close>.\<close>

definition api_clear :: "flask_session \<Rightarrow> http_response \<times> flask_session" where
  "api_clear s =
     (jsonify (JObj [(''success'', JBool True), (''message'', JStr ''Chat history cleared'')]) 200,
      s\<lparr>store := (store s)\<lparr>chat_history := Some []\<rparr>, modified := True\<rparr>)"

text \<open>
  One POST to \<open>/api/chat\<close> from a browser whose cookie holds \<open>cookie\<close>: the result of the
  route, the cookie the browser holds afterwards, and the effects.
\<close>

definition post_api_chat ::
  "endpoint \<Rightarrow> vllm_client \<Rightarrow> json \<Rightarrow> session_data \<Rightarrow> io
     \<Rightarrow> http_response res \<times> session_data \<times> io" where
  "post_api_chat ep vllm_client data cookie w =
     (case api_chat ep vllm_client data (open_session cookie) w of
        (r, s, w1) \<Rightarrow> (r, save_session cookie s, w1))"

section \<open>The interactive loop of the command-line demo\<close>

text \<open>
  One event per call of \<open>input\<close>: a line, or Ctrl-C. When the events are used up,
  standard input is at its end and \<open>input\<close> raises \<open>EOFError\<close>, which the handler
  \<open>except Exception\<close> of the loop catches before the loop goes round again. The loop
  returns the transcript it ends with, the events left, and the effects; \<open>None\<close> is a
  loop that never returns.
\<close>

datatype input_event = Line string | KeyboardInterrupt

partial_function (option) interactive_loop ::
  "endpoint \<Rightarrow> vllm_client \<Rightarrow> input_event list \<Rightarrow> message list \<Rightarrow> io
     \<Rightarrow> (message list \<times> input_event list \<times> io) option" where
  "interactive_loop ep client inp messages w =
     (case inp of
        [] \<Rightarrow> interactive_loop ep client [] messages w
      | KeyboardInterrupt # rest \<Rightarrow> Some (messages, rest, w)
      | Line l # rest \<Rightarrow>
          (let user_input = str_strip l in
           if str_lower user_input \<in> set [''quit'', ''exit'']
           then Some (messages, rest, w)
           else if str_lower user_input = ''clear''
           then interactive_loop ep client rest [] w
           else if user_input = []
           then interactive_loop ep client rest messages w
           else
             (case chat_completion ep client (messages @ [user_message user_input])
                     200 (7 / 10) w of
                (Inl e, w1) \<Rightarrow>
                  interactive_loop ep client rest (messages @ [user_message user_input]) w1
              | (Inr response, w1) \<Rightarrow>
                  if truthy response
                  then interactive_loop ep client rest
                         (messages @ [user_message user_input, assistant_message response]) w1
                  else interactive_loop ep client rest
                         (messages @ [user_message user_input]) w1)))"

definition interactive_chat ::
  "endpoint \<Rightarrow> environ \<Rightarrow> proc_outcome \<Rightarrow> input_event list \<Rightarrow> io
     \<Rightarrow> (message list \<times> input_event list \<times> io) option" where
  "interactive_chat ep env kubectl inp w =
     interactive_loop ep (vllm_client_init None env kubectl) inp [] w"

section \<open>Example inputs\<close>

definition example_client :: vllm_client where
  "example_client = \<lparr>base_url = ''http://localhost:8080'', model = MODEL_NAME\<rparr>"

definition no_io :: io where
  "no_io = \<lparr>sent = [], stdout = []\<rparr>"

definition no_cookie :: session_data where
  "no_cookie = \<lparr>session_id = None, chat_history = None\<rparr>"

text \<open>A service that cannot be reached.\<close>

definition refusing_endpoint :: endpoint where
  "refusing_endpoint h req = Fails (RequestException ''Connection refused'')"

text \<open>
  An environment with \<open>VLLM_IP=10.0.0..5\<close>, and what the library does with every
  request to the host \<open>10.0.0..5\<close> of the base URL resolved from it.
\<close>

definition double_dot_environ :: environ where
  "double_dot_environ name = (if name = ''VLLM_IP'' then Some ''10.0.0..5'' else None)"

definition no_kubectl :: proc_outcome where
  "no_kubectl = Raised ''FileNotFoundError''"

definition unparsable_host_endpoint :: endpoint where
  "unparsable_host_endpoint h req = Fails (LocationParseError ''10.0.0..5'')"

text \<open>Services that answer every request with the same response.\<close>

definition unavailable_endpoint :: endpoint where
  "unavailable_endpoint h req =
     Returned \<lparr>status_code = 503, reason = ''Service Unavailable'',
               body = NotJson ''Expecting value: line 1 column 1 (char 0)''\<rparr>"

definition no_content_endpoint :: endpoint where
  "no_content_endpoint h req =
     Returned \<lparr>status_code = 204, reason = ''No Content'',
               body = NotJson ''Expecting value: line 1 column 1 (char 0)''\<rparr>"

definition html_endpoint :: endpoint where
  "html_endpoint h req =
     Returned \<lparr>status_code = 200, reason = ''OK'',
               body = NotJson ''Expecting value: line 1 column 1 (char 0)''\<rparr>"

definition multiple_choices_endpoint :: endpoint where
  "multiple_choices_endpoint h req =
     Returned \<lparr>status_code = 300, reason = ''Multiple Choices'', body = JsonBody (JObj [])\<rparr>"

definition empty_object_endpoint :: endpoint where
  "empty_object_endpoint h req =
     Returned \<lparr>status_code = 200, reason = ''OK'', body = JsonBody (JObj [])\<rparr>"

definition no_choice_endpoint :: endpoint where
  "no_choice_endpoint h req =
     Returned \<lparr>status_code = 200, reason = ''OK'',
               body = JsonBody (JObj [(''choices'', JArr [])])\<rparr>"

definition bare_choice_endpoint :: endpoint where
  "bare_choice_endpoint h req =
     Returned \<lparr>status_code = 200, reason = ''OK'',
               body = JsonBody (JObj [(''choices'', JArr [JObj []])])\<rparr>"

definition bare_message_endpoint :: endpoint where
  "bare_message_endpoint h req =
     Returned \<lparr>status_code = 200, reason = ''OK'',
               body = JsonBody (JObj [(''choices'', JArr [JObj [(''message'', JObj [])]])])\<rparr>"

text \<open>A service that answers every request with a list of one model.\<close>

definition models_endpoint :: endpoint where
  "models_endpoint h req =
     Returned \<lparr>status_code = 200, reason = ''OK'',
               body = JsonBody
                        (JObj [(''data'',
                                JArr [JObj [(''id'', JStr ''Qwen/Qwen2.5-1.5B-Instruct'')]])])\<rparr>"

text \<open>A service that answers every request with a well-formed completion.\<close>

definition greeting_endpoint :: endpoint where
  "greeting_endpoint h req =
     Returned \<lparr>status_code = 200, reason = ''OK'',
               body = JsonBody
                        (JObj [(''choices'',
                                JArr [JObj [(''message'',
                                             JObj [(''role'', JStr ''assistant''),
                                                   (''content'', JStr ''Hello!'')]),
                                            (''text'', JStr ''Hello!'')]])])\<rparr>"

text \<open>
  A service that answers the first request it gets with a well-formed completion and
  refuses every later one.
\<close>

definition once_endpoint :: endpoint where
  "once_endpoint h req =
     (if h = [] then greeting_endpoint h req
      else Fails (RequestException ''Connection refused''))"

section \<open>Facts about the operations\<close>

lemma requests_send_eq:
  "requests_send ep req w =
     (case ep (sent w) req of Fails e \<Rightarrow> Inl e | Returned r \<Rightarrow> Inr r,
      w\<lparr>sent := sent w @ [req]\<rparr>)"
  by (simp add: requests_send_def)

lemma raise_for_status_error:
  "400 \<le> status_code r \<Longrightarrow> status_code r < 600 \<Longrightarrow>
   raise_for_status u r =
     Inl (RequestException
           (str_of_nat (status_code r)
            @ (if status_code r < 500 then '' Client Error: '' else '' Server Error: '')
            @ reason r @ '' for url: '' @ u))"
  by (simp add: raise_for_status_def Let_def)

lemma raise_for_status_ok:
  "\<not> (400 \<le> status_code r \<and> status_code r < 600) \<Longrightarrow> raise_for_status u r = Inr ()"
  by (auto simp: raise_for_status_def Let_def)

lemma str_of_nat_503: "str_of_nat 503 = ''503''"
  by code_simp

lemma str_strip_eq_Nil_iff: "str_strip m = [] \<longleftrightarrow> (\<forall>ch\<in>set m. is_space ch)"
proof
  assume "str_strip m = []"
  then have all: "\<forall>x\<in>set (dropWhile is_space m). is_space x"
    by (simp add: str_strip_def dropWhile_eq_Nil_conv)
  have "dropWhile is_space m = []"
  proof (rule ccontr)
    assume ne: "dropWhile is_space m \<noteq> []"
    then have "\<not> is_space (hd (dropWhile is_space m))" by (rule hd_dropWhile)
    moreover have "hd (dropWhile is_space m) \<in> set (dropWhile is_space m)"
      using ne by simp
    ultimately show False using all by blast
  qed
  then show "\<forall>ch\<in>set m. is_space ch" by (simp add: dropWhile_eq_Nil_conv)
next
  assume "\<forall>ch\<in>set m. is_space ch"
  then have d: "dropWhile is_space m = []" by (simp add: dropWhile_eq_Nil_conv)
  show "str_strip m = []" unfolding str_strip_def d by simp
qed

section \<open>The health check\<close>

text \<open>
  Claim C5, as stated: for every endpoint, malformed ones included, the health check
  raises nothing, and it returns true exactly when the status of the response indicates
  success. It fails on both counts. With \<open>VLLM_IP=10.0.0..5\<close> the library raises
  \<open>LocationParseError\<close>, which is no \<open>RequestException\<close>, and both health checks let
  it through to the caller. And on a response with the status 204, a status of
  success, both health checks return false.
\<close>

theorem health_check_raises_on_unparsable_host:
  "base_url (vllm_client_init None double_dot_environ no_kubectl)
     = ''http://10.0.0..5:8080''
   \<and> fst (health_check unparsable_host_endpoint
            (vllm_client_init None double_dot_environ no_kubectl)
            no_io) = Inl (LocationParseError ''10.0.0..5'')
   \<and> fst (web_health_check unparsable_host_endpoint
            (vllm_web_client_init None
               (get_vllm_base_url double_dot_environ no_kubectl))
            no_io) = Inl (LocationParseError ''10.0.0..5'')
   \<and> fst (health_check no_content_endpoint example_client no_io) = Inr False
   \<and> fst (web_health_check no_content_endpoint example_client no_io) = Inr False"
  by (simp add: vllm_client_init_def double_dot_environ_def health_check_def
        web_health_check_def requests_send_eq unparsable_host_endpoint_def
        no_content_endpoint_def Let_def)

text \<open>
  Claim C5, amended. For every base URL and every endpoint at which the library raises
  a \<open>RequestException\<close> (timeout, connection refused, DNS failure) or returns a
  response, the health check of either client raises nothing and returns a boolean: it
  is false on the \<open>RequestException\<close>, and on a response it is true exactly when the
  status is 200. An exception of another class that the library lets through reaches
  the caller.
\<close>

theorem health_check_result:
  "(ep (sent w) (health_request c) = Fails (RequestException e)
      \<longrightarrow> fst (health_check ep c w) = Inr False)
   \<and> (ep (sent w) (health_request c) = Returned r
      \<longrightarrow> fst (health_check ep c w) = Inr (status_code r = 200))
   \<and> (ep (sent w) (health_request c) = Fails x \<and> (\<forall>d. x \<noteq> RequestException d)
      \<longrightarrow> fst (health_check ep c w) = Inl x)
   \<and> (ep (sent w) (web_health_request c) = Fails (RequestException e')
      \<longrightarrow> fst (web_health_check ep c w) = Inr False)
   \<and> (ep (sent w) (web_health_request c) = Returned r'
      \<longrightarrow> fst (web_health_check ep c w) = Inr (status_code r' = 200))
   \<and> (ep (sent w) (web_health_request c) = Fails x' \<and> (\<forall>d. x' \<noteq> RequestException d)
      \<longrightarrow> fst (web_health_check ep c w) = Inl x')"
proof (intro conjI impI)
  assume "ep (sent w) (health_request c) = Fails (RequestException e)"
  then show "fst (health_check ep c w) = Inr False"
    by (simp add: health_check_def requests_send_eq)
next
  assume "ep (sent w) (health_request c) = Returned r"
  then show "fst (health_check ep c w) = Inr (status_code r = 200)"
    by (simp add: health_check_def requests_send_eq)
next
  assume "ep (sent w) (health_request c) = Fails x \<and> (\<forall>d. x \<noteq> RequestException d)"
  then show "fst (health_check ep c w) = Inl x"
    by (cases x) (simp_all add: health_check_def requests_send_eq)
next
  assume "ep (sent w) (web_health_request c) = Fails (RequestException e')"
  then show "fst (web_health_check ep c w) = Inr False"
    by (simp add: web_health_check_def requests_send_eq)
next
  assume "ep (sent w) (web_health_request c) = Returned r'"
  then show "fst (web_health_check ep c w) = Inr (status_code r' = 200)"
    by (simp add: web_health_check_def requests_send_eq)
next
  assume "ep (sent w) (web_health_request c) = Fails x' \<and> (\<forall>d. x' \<noteq> RequestException d)"
  then show "fst (web_health_check ep c w) = Inl x'"
    by (cases x') (simp_all add: web_health_check_def requests_send_eq)
qed

theorem health_check_result_witness:
  "fst (health_check refusing_endpoint example_client no_io) = Inr False
   \<and> fst (web_health_check refusing_endpoint example_client no_io) = Inr False
   \<and> fst (health_check greeting_endpoint example_client no_io) = Inr True
   \<and> fst (web_health_check greeting_endpoint example_client no_io) = Inr True
   \<and> fst (health_check unavailable_endpoint example_client no_io) = Inr False
   \<and> fst (web_health_check unavailable_endpoint example_client no_io) = Inr False
   \<and> fst (health_check unparsable_host_endpoint example_client no_io)
       = Inl (LocationParseError ''10.0.0..5'')
   \<and> fst (web_health_check unparsable_host_endpoint example_client no_io)
       = Inl (LocationParseError ''10.0.0..5'')"
  using health_check_result
          [where ep = refusing_endpoint and c = example_client and w = no_io
             and e = "''Connection refused''" and e' = "''Connection refused''"]
        health_check_result
          [where ep = greeting_endpoint and c = example_client and w = no_io
             and r = "\<lparr>status_code = 200, reason = ''OK'',
                        body = JsonBody
                          (JObj [(''choices'',
                                  JArr [JObj [(''message'',
                                               JObj [(''role'', JStr ''assistant''),
                                                     (''content'', JStr ''Hello!'')]),
                                              (''text'', JStr ''Hello!'')]])])\<rparr>"
             and r' = "\<lparr>status_code = 200, reason = ''OK'',
                        body = JsonBody
                          (JObj [(''choices'',
                                  JArr [JObj [(''message'',
                                               JObj [(''role'', JStr ''assistant''),
                                                     (''content'', JStr ''Hello!'')]),
                                              (''text'', JStr ''Hello!'')]])])\<rparr>"]
        health_check_result
          [where ep = unavailable_endpoint and c = example_client and w = no_io
             and r = "\<lparr>status_code = 503, reason = ''Service Unavailable'',
                        body = NotJson ''Expecting value: line 1 column 1 (char 0)''\<rparr>"
             and r' = "\<lparr>status_code = 503, reason = ''Service Unavailable'',
                        body = NotJson ''Expecting value: line 1 column 1 (char 0)''\<rparr>"]
        health_check_result
          [where ep = unparsable_host_endpoint and c = example_client and w = no_io
             and x = "LocationParseError ''10.0.0..5''"
             and x' = "LocationParseError ''10.0.0..5''"]
  by (simp add: refusing_endpoint_def greeting_endpoint_def unavailable_endpoint_def
        unparsable_host_endpoint_def)

section \<open>Rejection of an empty message\<close>

text \<open>
  Claim C4. For every POST to \<open>/api/chat\<close> whose JSON body is an object with a
  \<open>message\<close> field that is a string of whitespace only (the empty string included), the
  route answers with status 400 and a body with an \<open>error\<close> field; the session of the
  request and the cookie of the browser are as before, and so are the effects: no request
  is sent to the service.
\<close>

theorem empty_message_rejected:
  assumes "map_of kvs ''message'' = Some (JStr m)" and "\<forall>ch\<in>set m. is_space ch"
  shows "api_chat ep client (JObj kvs) s w =
           (Inr (jsonify (JObj [(''error'', JStr ''Message cannot be empty'')]) 400), s, w)
         \<and> post_api_chat ep client (JObj kvs) cookie w =
           (Inr (jsonify (JObj [(''error'', JStr ''Message cannot be empty'')]) 400),
            cookie, w)"
proof -
  have "str_strip m = []" using assms(2) by (simp add: str_strip_eq_Nil_iff)
  then show ?thesis using assms(1)
    by (simp add: api_chat_def post_api_chat_def bind_res_def open_session_def
          save_session_def)
qed

theorem empty_message_rejected_witness:
  "post_api_chat greeting_endpoint example_client (JObj [(''message'', JStr ''  '')])
     no_cookie no_io =
     (Inr \<lparr>status = 400, rbody = JObj [(''error'', JStr ''Message cannot be empty'')]\<rparr>,
      no_cookie, no_io)"
proof -
  have h1: "map_of [(''message'', JStr ''  '')] ''message'' = Some (JStr ''  '')"
    by simp
  have h2: "\<forall>ch\<in>set ''  ''. is_space ch"
    by (simp add: is_space_def)
  show ?thesis
    using empty_message_rejected [OF h1 h2, of greeting_endpoint example_client]
    by (simp add: jsonify_def)
qed

section \<open>The completion operations\<close>

lemma chat_completion_request_exception:
  assumes "ep (sent w) (chat_request c msgs mt temp) = Fails (RequestException e)"
  shows "chat_completion ep c msgs mt temp w =
           (Inr JNull,
            w\<lparr>sent := sent w @ [chat_request c msgs mt temp],
              stdout := stdout w @ [''Error in chat completion: '' @ e]\<rparr>)"
    and "web_chat_completion ep c msgs mt temp w =
           (Inr (Failure e), w\<lparr>sent := sent w @ [chat_request c msgs mt temp]\<rparr>)"
  using assms
  by (simp_all add: chat_completion_def web_chat_completion_def requests_send_eq
        bind_res_def print_line_def)

lemma chat_completion_error_status:
  assumes "ep (sent w) (chat_request c msgs mt temp) = Returned r"
    and "400 \<le> status_code r" and "status_code r < 600"
  shows "chat_completion ep c msgs mt temp w =
           (Inr JNull,
            w\<lparr>sent := sent w @ [chat_request c msgs mt temp],
              stdout := stdout w @
                [''Error in chat completion: '' @ str_of_nat (status_code r)
                 @ (if status_code r < 500 then '' Client Error: '' else '' Server Error: '')
                 @ reason r @ '' for url: '' @ base_url c @ ''/v1/chat/completions'']\<rparr>)"
    and "web_chat_completion ep c msgs mt temp w =
           (Inr (Failure
                  (str_of_nat (status_code r)
                   @ (if status_code r < 500 then '' Client Error: '' else '' Server Error: '')
                   @ reason r @ '' for url: '' @ base_url c @ ''/v1/chat/completions'')),
            w\<lparr>sent := sent w @ [chat_request c msgs mt temp]\<rparr>)"
proof -
  have u: "url (chat_request c msgs mt temp) = base_url c @ ''/v1/chat/completions''"
    by (simp add: chat_request_def)
  note rs = raise_for_status_error [OF assms(2,3), of "url (chat_request c msgs mt temp)"]
  show "chat_completion ep c msgs mt temp w =
           (Inr JNull,
            w\<lparr>sent := sent w @ [chat_request c msgs mt temp],
              stdout := stdout w @
                [''Error in chat completion: '' @ str_of_nat (status_code r)
                 @ (if status_code r < 500 then '' Client Error: '' else '' Server Error: '')
                 @ reason r @ '' for url: '' @ base_url c @ ''/v1/chat/completions'']\<rparr>)"
    using assms(1) rs
    by (simp add: chat_completion_def requests_send_eq bind_res_def print_line_def u)
  show "web_chat_completion ep c msgs mt temp w =
           (Inr (Failure
                  (str_of_nat (status_code r)
                   @ (if status_code r < 500 then '' Client Error: '' else '' Server Error: '')
                   @ reason r @ '' for url: '' @ base_url c @ ''/v1/chat/completions'')),
            w\<lparr>sent := sent w @ [chat_request c msgs mt temp]\<rparr>)"
    using assms(1) rs
    by (simp add: web_chat_completion_def requests_send_eq bind_res_def u)
qed

lemma chat_completion_not_json:
  assumes "ep (sent w) (chat_request c msgs mt temp) = Returned r"
    and "\<not> (400 \<le> status_code r \<and> status_code r < 600)"
    and "body r = NotJson msg"
  shows "chat_completion ep c msgs mt temp w =
           (Inr JNull,
            w\<lparr>sent := sent w @ [chat_request c msgs mt temp],
              stdout := stdout w @ [''Error in chat completion: '' @ msg]\<rparr>)"
    and "web_chat_completion ep c msgs mt temp w =
           (Inr (Failure msg), w\<lparr>sent := sent w @ [chat_request c msgs mt temp]\<rparr>)"
  using assms(1,3) raise_for_status_ok [OF assms(2)]
  by (simp_all add: chat_completion_def web_chat_completion_def requests_send_eq
        bind_res_def print_line_def response_json_def)

lemma chat_completion_json:
  assumes "ep (sent w) (chat_request c msgs mt temp) = Returned r"
    and "\<not> (400 \<le> status_code r \<and> status_code r < 600)"
    and "body r = JsonBody j"
  shows "chat_completion ep c msgs mt temp w =
           (case chat_content j of
              Inr v \<Rightarrow> (Inr v, w\<lparr>sent := sent w @ [chat_request c msgs mt temp]\<rparr>)
            | Inl (RequestException e) \<Rightarrow>
                (Inr JNull, print_line (''Error in chat completion: '' @ e)
                              (w\<lparr>sent := sent w @ [chat_request c msgs mt temp]\<rparr>))
            | Inl other \<Rightarrow> (Inl other, w\<lparr>sent := sent w @ [chat_request c msgs mt temp]\<rparr>))"
    and "web_chat_completion ep c msgs mt temp w =
           (case bind_res (chat_content j) (\<lambda>cont.
                   bind_res (dict_get j ''usage'' (JObj [])) (\<lambda>usage.
                     Inr (Success cont usage))) of
              Inr v \<Rightarrow> (Inr v, w\<lparr>sent := sent w @ [chat_request c msgs mt temp]\<rparr>)
            | Inl (RequestException e) \<Rightarrow>
                (Inr (Failure e), w\<lparr>sent := sent w @ [chat_request c msgs mt temp]\<rparr>)
            | Inl other \<Rightarrow> (Inl other, w\<lparr>sent := sent w @ [chat_request c msgs mt temp]\<rparr>))"
  using assms(1,3) raise_for_status_ok [OF assms(2)]
  by (simp_all add: chat_completion_def web_chat_completion_def requests_send_eq
        bind_res_def response_json_def)

lemma chat_completion_escapes:
  assumes "ep (sent w) (chat_request c msgs mt temp) = Fails x"
    and "\<forall>d. x \<noteq> RequestException d"
  shows "fst (chat_completion ep c msgs mt temp w) = Inl x"
    and "fst (web_chat_completion ep c msgs mt temp w) = Inl x"
  using assms
  by (cases x; simp add: chat_completion_def web_chat_completion_def requests_send_eq
        bind_res_def)+

lemma completion_request_exception:
  assumes "ep (sent w) (completion_request c p mt temp) = Fails (RequestException e)"
  shows "completion ep c p mt temp w =
           (Inr JNull,
            w\<lparr>sent := sent w @ [completion_request c p mt temp],
              stdout := stdout w @ [''Error in completion: '' @ e]\<rparr>)"
  using assms
  by (simp add: completion_def requests_send_eq bind_res_def print_line_def)

lemma completion_error_status:
  assumes "ep (sent w) (completion_request c p mt temp) = Returned r"
    and "400 \<le> status_code r" and "status_code r < 600"
  shows "completion ep c p mt temp w =
           (Inr JNull,
            w\<lparr>sent := sent w @ [completion_request c p mt temp],
              stdout := stdout w @
                [''Error in completion: '' @ str_of_nat (status_code r)
                 @ (if status_code r < 500 then '' Client Error: '' else '' Server Error: '')
                 @ reason r @ '' for url: '' @ base_url c @ ''/v1/completions'']\<rparr>)"
proof -
  have u: "url (completion_request c p mt temp) = base_url c @ ''/v1/completions''"
    by (simp add: completion_request_def)
  show ?thesis
    using assms(1)
      raise_for_status_error [OF assms(2,3), of "url (completion_request c p mt temp)"]
    by (simp add: completion_def requests_send_eq bind_res_def print_line_def u)
qed

lemma completion_not_json:
  assumes "ep (sent w) (completion_request c p mt temp) = Returned r"
    and "\<not> (400 \<le> status_code r \<and> status_code r < 600)"
    and "body r = NotJson msg"
  shows "completion ep c p mt temp w =
           (Inr JNull,
            w\<lparr>sent := sent w @ [completion_request c p mt temp],
              stdout := stdout w @ [''Error in completion: '' @ msg]\<rparr>)"
  using assms(1,3) raise_for_status_ok [OF assms(2)]
  by (simp add: completion_def requests_send_eq bind_res_def print_line_def
        response_json_def)

lemma completion_json:
  assumes "ep (sent w) (completion_request c p mt temp) = Returned r"
    and "\<not> (400 \<le> status_code r \<and> status_code r < 600)"
    and "body r = JsonBody j"
  shows "completion ep c p mt temp w =
           (case completion_text j of
              Inr v \<Rightarrow> (Inr v, w\<lparr>sent := sent w @ [completion_request c p mt temp]\<rparr>)
            | Inl (RequestException e) \<Rightarrow>
                (Inr JNull, print_line (''Error in completion: '' @ e)
                              (w\<lparr>sent := sent w @ [completion_request c p mt temp]\<rparr>))
            | Inl other \<Rightarrow>
                (Inl other, w\<lparr>sent := sent w @ [completion_request c p mt temp]\<rparr>))"
  using assms(1,3) raise_for_status_ok [OF assms(2)]
  by (simp add: completion_def requests_send_eq bind_res_def response_json_def)

lemma completion_escapes:
  assumes "ep (sent w) (completion_request c p mt temp) = Fails x"
    and "\<forall>d. x \<noteq> RequestException d"
  shows "fst (completion ep c p mt temp w) = Inl x"
  using assms
  by (cases x; simp add: completion_def requests_send_eq bind_res_def)

text \<open>
  Claim C1, as stated: the completion operations never raise; on any transport error
  and on a response whose body lacks the expected keys they return a failure value. It
  fails: on a response with status 200 and the body \<open>{}\<close>, all three operations
  raise \<open>KeyError\<close> for the key \<open>choices\<close>, since their handlers catch
  \<open>RequestException\<close> only; for the same reason the \<open>LocationParseError\<close> that the
  library raises with \<open>VLLM_IP=10.0.0..5\<close> reaches the caller.
\<close>

theorem completion_raises_on_missing_key:
  "fst (chat_completion empty_object_endpoint example_client [user_message ''Hi'']
          100 (7 / 10) no_io) = Inl (KeyError ''choices'')
   \<and> fst (completion empty_object_endpoint example_client ''The future of AI is''
          50 (7 / 10) no_io) = Inl (KeyError ''choices'')
   \<and> fst (web_chat_completion empty_object_endpoint example_client [user_message ''Hi'']
          200 (7 / 10) no_io) = Inl (KeyError ''choices'')
   \<and> fst (chat_completion unparsable_host_endpoint
            (vllm_client_init None double_dot_environ no_kubectl) [user_message ''Hi'']
            100 (7 / 10) no_io) = Inl (LocationParseError ''10.0.0..5'')"
  by (simp add: chat_completion_def completion_def web_chat_completion_def
        requests_send_eq bind_res_def empty_object_endpoint_def raise_for_status_def
        response_json_def chat_content_def completion_text_def
        unparsable_host_endpoint_def)

text \<open>
  Claim C1, amended. For every transcript (or prompt), every client and every endpoint:
  \<^item> when the library raises a \<open>RequestException\<close> (a transport error), when the
    service answers with an error status (4xx or 5xx), and when the body of the response
    is no JSON document, each completion operation raises nothing and returns its
    failure value with the diagnostic: the command-line operations return \<open>None\<close> and
    print the line \<open>Error in chat completion: ...\<close> or \<open>Error in completion: ...\<close>, the
    web operation returns \<open>{success: false, error: ...}\<close>;
  \<^item> when the body is a JSON object of the expected shape, the operation returns the
    content of the message (the text, for the legacy operation) of the first choice,
    the web operation together with the \<open>usage\<close> of the body, or \<open>{}\<close>;
  \<^item> when the body is a JSON object that lacks \<open>choices\<close>, \<open>message\<close>, \<open>content\<close> or
    \<open>text\<close>, or whose list of choices is empty, the \<open>KeyError\<close> or \<open>IndexError\<close> of the
    access reaches the caller, and so does an exception of the library that is no
    \<open>RequestException\<close>.
\<close>

theorem completion_failure_value:
  "(ep (sent w) (chat_request c msgs mt temp) = Fails (RequestException e)
     \<longrightarrow> chat_completion ep c msgs mt temp w =
           (Inr JNull,
            w\<lparr>sent := sent w @ [chat_request c msgs mt temp],
              stdout := stdout w @ [''Error in chat completion: '' @ e]\<rparr>)
         \<and> web_chat_completion ep c msgs mt temp w =
           (Inr (Failure e), w\<lparr>sent := sent w @ [chat_request c msgs mt temp]\<rparr>))
   \<and> (ep (sent w) (chat_request c msgs mt temp) = Returned r
        \<and> 400 \<le> status_code r \<and> status_code r < 600
     \<longrightarrow> chat_completion ep c msgs mt temp w =
           (Inr JNull,
            w\<lparr>sent := sent w @ [chat_request c msgs mt temp],
              stdout := stdout w @
                [''Error in chat completion: '' @ str_of_nat (status_code r)
                 @ (if status_code r < 500 then '' Client Error: '' else '' Server Error: '')
                 @ reason r @ '' for url: '' @ base_url c @ ''/v1/chat/completions'']\<rparr>)
         \<and> web_chat_completion ep c msgs mt temp w =
           (Inr (Failure
                  (str_of_nat (status_code r)
                   @ (if status_code r < 500 then '' Client Error: '' else '' Server Error: '')
                   @ reason r @ '' for url: '' @ base_url c @ ''/v1/chat/completions'')),
            w\<lparr>sent := sent w @ [chat_request c msgs mt temp]\<rparr>))
   \<and> (ep (sent w) (chat_request c msgs mt temp) = Returned r
        \<and> \<not> (400 \<le> status_code r \<and> status_code r < 600) \<and> body r = NotJson msg
     \<longrightarrow> chat_completion ep c msgs mt temp w =
           (Inr JNull,
            w\<lparr>sent := sent w @ [chat_request c msgs mt temp],
              stdout := stdout w @ [''Error in chat completion: '' @ msg]\<rparr>)
         \<and> web_chat_completion ep c msgs mt temp w =
           (Inr (Failure msg), w\<lparr>sent := sent w @ [chat_request c msgs mt temp]\<rparr>))
   \<and> (ep (sent w) (chat_request c msgs mt temp) = Returned r
        \<and> \<not> (400 \<le> status_code r \<and> status_code r < 600)
        \<and> body r = JsonBody (JObj kvs)
        \<and> map_of kvs ''choices'' = Some (JArr (JObj ckvs # rest))
        \<and> map_of ckvs ''message'' = Some (JObj mkvs)
        \<and> map_of mkvs ''content'' = Some v
     \<longrightarrow> fst (chat_completion ep c msgs mt temp w) = Inr v
         \<and> fst (web_chat_completion ep c msgs mt temp w) =
             Inr (Success v (case map_of kvs ''usage'' of None \<Rightarrow> JObj [] | Some u \<Rightarrow> u)))
   \<and> (ep (sent w) (chat_request c msgs mt temp) = Returned r
        \<and> \<not> (400 \<le> status_code r \<and> status_code r < 600)
        \<and> body r = JsonBody (JObj kvs)
        \<and> map_of kvs ''choices'' = None
     \<longrightarrow> fst (chat_completion ep c msgs mt temp w) = Inl (KeyError ''choices'')
         \<and> fst (web_chat_completion ep c msgs mt temp w) = Inl (KeyError ''choices''))
   \<and> (ep (sent w) (chat_request c msgs mt temp) = Returned r
        \<and> \<not> (400 \<le> status_code r \<and> status_code r < 600)
        \<and> body r = JsonBody (JObj kvs)
        \<and> map_of kvs ''choices'' = Some (JArr [])
     \<longrightarrow> fst (chat_completion ep c msgs mt temp w) = Inl IndexError
         \<and> fst (web_chat_completion ep c msgs mt temp w) = Inl IndexError)
   \<and> (ep (sent w) (chat_request c msgs mt temp) = Returned r
        \<and> \<not> (400 \<le> status_code r \<and> status_code r < 600)
        \<and> body r = JsonBody (JObj kvs)
        \<and> map_of kvs ''choices'' = Some (JArr (JObj ckvs # rest))
        \<and> map_of ckvs ''message'' = None
     \<longrightarrow> fst (chat_completion ep c msgs mt temp w) = Inl (KeyError ''message'')
         \<and> fst (web_chat_completion ep c msgs mt temp w) = Inl (KeyError ''message''))
   \<and> (ep (sent w) (chat_request c msgs mt temp) = Returned r
        \<and> \<not> (400 \<le> status_code r \<and> status_code r < 600)
        \<and> body r = JsonBody (JObj kvs)
        \<and> map_of kvs ''choices'' = Some (JArr (JObj ckvs # rest))
        \<and> map_of ckvs ''message'' = Some (JObj mkvs)
        \<and> map_of mkvs ''content'' = None
     \<longrightarrow> fst (chat_completion ep c msgs mt temp w) = Inl (KeyError ''content'')
         \<and> fst (web_chat_completion ep c msgs mt temp w) = Inl (KeyError ''content''))
   \<and> (ep (sent w) (chat_request c msgs mt temp) = Fails x
        \<and> (\<forall>d. x \<noteq> RequestException d)
     \<longrightarrow> fst (chat_completion ep c msgs mt temp w) = Inl x
         \<and> fst (web_chat_completion ep c msgs mt temp w) = Inl x)
   \<and> (ep (sent w) (completion_request c p mt temp) = Fails (RequestException e)
     \<longrightarrow> completion ep c p mt temp w =
           (Inr JNull,
            w\<lparr>sent := sent w @ [completion_request c p mt temp],
              stdout := stdout w @ [''Error in completion: '' @ e]\<rparr>))
   \<and> (ep (sent w) (completion_request c p mt temp) = Returned r
        \<and> 400 \<le> status_code r \<and> status_code r < 600
     \<longrightarrow> completion ep c p mt temp w =
           (Inr JNull,
            w\<lparr>sent := sent w @ [completion_request c p mt temp],
              stdout := stdout w @
                [''Error in completion: '' @ str_of_nat (status_code r)
                 @ (if status_code r < 500 then '' Client Error: '' else '' Server Error: '')
                 @ reason r @ '' for url: '' @ base_url c @ ''/v1/completions'']\<rparr>))
   \<and> (ep (sent w) (completion_request c p mt temp) = Returned r
        \<and> \<not> (400 \<le> status_code r \<and> status_code r < 600) \<and> body r = NotJson msg
     \<longrightarrow> completion ep c p mt temp w =
           (Inr JNull,
            w\<lparr>sent := sent w @ [completion_request c p mt temp],
              stdout := stdout w @ [''Error in completion: '' @ msg]\<rparr>))
   \<and> (ep (sent w) (completion_request c p mt temp) = Returned r
        \<and> \<not> (400 \<le> status_code r \<and> status_code r < 600)
        \<and> body r = JsonBody (JObj kvs)
        \<and> map_of kvs ''choices'' = Some (JArr (JObj ckvs # rest))
        \<and> map_of ckvs ''text'' = Some v
     \<longrightarrow> fst (completion ep c p mt temp w) = Inr v)
   \<and> (ep (sent w) (completion_request c p mt temp) = Returned r
        \<and> \<not> (400 \<le> status_code r \<and> status_code r < 600)
        \<and> body r = JsonBody (JObj kvs)
        \<and> map_of kvs ''choices'' = None
     \<longrightarrow> fst (completion ep c p mt temp w) = Inl (KeyError ''choices''))
   \<and> (ep (sent w) (completion_request c p mt temp) = Returned r
        \<and> \<not> (400 \<le> status_code r \<and> status_code r < 600)
        \<and> body r = JsonBody (JObj kvs)
        \<and> map_of kvs ''choices'' = Some (JArr [])
     \<longrightarrow> fst (completion ep c p mt temp w) = Inl IndexError)
   \<and> (ep (sent w) (completion_request c p mt temp) = Returned r
        \<and> \<not> (400 \<le> status_code r \<and> status_code r < 600)
        \<and> body r = JsonBody (JObj kvs)
        \<and> map_of kvs ''choices'' = Some (JArr (JObj ckvs # rest))
        \<and> map_of ckvs ''text'' = None
     \<longrightarrow> fst (completion ep c p mt temp w) = Inl (KeyError ''text''))
   \<and> (ep (sent w) (completion_request c p mt temp) = Fails x
        \<and> (\<forall>d. x \<noteq> RequestException d)
     \<longrightarrow> fst (completion ep c p mt temp w) = Inl x)"
proof -
  note shape = chat_content_def completion_text_def bind_res_def
  have c1: "ep (sent w) (chat_request c msgs mt temp) = Fails (RequestException e)
     \<longrightarrow> chat_completion ep c msgs mt temp w =
           (Inr JNull,
            w\<lparr>sent := sent w @ [chat_request c msgs mt temp],
              stdout := stdout w @ [''Error in chat completion: '' @ e]\<rparr>)
         \<and> web_chat_completion ep c msgs mt temp w =
           (Inr (Failure e), w\<lparr>sent := sent w @ [chat_request c msgs mt temp]\<rparr>)"
    using chat_completion_request_exception by blast
  have c2: "ep (sent w) (chat_request c msgs mt temp) = Returned r
        \<and> 400 \<le> status_code r \<and> status_code r < 600
     \<longrightarrow> chat_completion ep c msgs mt temp w =
           (Inr JNull,
            w\<lparr>sent := sent w @ [chat_request c msgs mt temp],
              stdout := stdout w @
                [''Error in chat completion: '' @ str_of_nat (status_code r)
                 @ (if status_code r < 500 then '' Client Error: '' else '' Server Error: '')
                 @ reason r @ '' for url: '' @ base_url c @ ''/v1/chat/completions'']\<rparr>)
         \<and> web_chat_completion ep c msgs mt temp w =
           (Inr (Failure
                  (str_of_nat (status_code r)
                   @ (if status_code r < 500 then '' Client Error: '' else '' Server Error: '')
                   @ reason r @ '' for url: '' @ base_url c @ ''/v1/chat/completions'')),
            w\<lparr>sent := sent w @ [chat_request c msgs mt temp]\<rparr>)"
    using chat_completion_error_status by blast
  have c3: "ep (sent w) (chat_request c msgs mt temp) = Returned r
        \<and> \<not> (400 \<le> status_code r \<and> status_code r < 600) \<and> body r = NotJson msg
     \<longrightarrow> chat_completion ep c msgs mt temp w =
           (Inr JNull,
            w\<lparr>sent := sent w @ [chat_request c msgs mt temp],
              stdout := stdout w @ [''Error in chat completion: '' @ msg]\<rparr>)
         \<and> web_chat_completion ep c msgs mt temp w =
           (Inr (Failure msg), w\<lparr>sent := sent w @ [chat_request c msgs mt temp]\<rparr>)"
    using chat_completion_not_json by blast
  have c4: "ep (sent w) (chat_request c msgs mt temp) = Returned r
        \<and> \<not> (400 \<le> status_code r \<and> status_code r < 600)
        \<and> body r = JsonBody (JObj kvs)
        \<and> map_of kvs ''choices'' = Some (JArr (JObj ckvs # rest))
        \<and> map_of ckvs ''message'' = Some (JObj mkvs)
        \<and> map_of mkvs ''content'' = Some v
     \<longrightarrow> fst (chat_completion ep c msgs mt temp w) = Inr v
         \<and> fst (web_chat_completion ep c msgs mt temp w) =
             Inr (Success v (case map_of kvs ''usage'' of None \<Rightarrow> JObj [] | Some u \<Rightarrow> u))"
    by (auto simp: chat_completion_json shape split: option.splits)
  have c5: "ep (sent w) (chat_request c msgs mt temp) = Returned r
        \<and> \<not> (400 \<le> status_code r \<and> status_code r < 600)
        \<and> body r = JsonBody (JObj kvs)
        \<and> map_of kvs ''choices'' = None
     \<longrightarrow> fst (chat_completion ep c msgs mt temp w) = Inl (KeyError ''choices'')
         \<and> fst (web_chat_completion ep c msgs mt temp w) = Inl (KeyError ''choices'')"
    by (auto simp: chat_completion_json shape)
  have c6: "ep (sent w) (chat_request c msgs mt temp) = Returned r
        \<and> \<not> (400 \<le> status_code r \<and> status_code r < 600)
        \<and> body r = JsonBody (JObj kvs)
        \<and> map_of kvs ''choices'' = Some (JArr [])
     \<longrightarrow> fst (chat_completion ep c msgs mt temp w) = Inl IndexError
         \<and> fst (web_chat_completion ep c msgs mt temp w) = Inl IndexError"
    by (auto simp: chat_completion_json shape)
  have c7: "ep (sent w) (chat_request c msgs mt temp) = Returned r
        \<and> \<not> (400 \<le> status_code r \<and> status_code r < 600)
        \<and> body r = JsonBody (JObj kvs)
        \<and> map_of kvs ''choices'' = Some (JArr (JObj ckvs # rest))
        \<and> map_of ckvs ''message'' = None
     \<longrightarrow> fst (chat_completion ep c msgs mt temp w) = Inl (KeyError ''message'')
         \<and> fst (web_chat_completion ep c msgs mt temp w) = Inl (KeyError ''message'')"
    by (auto simp: chat_completion_json shape)
  have c8: "ep (sent w) (chat_request c msgs mt temp) = Returned r
        \<and> \<not> (400 \<le> status_code r \<and> status_code r < 600)
        \<and> body r = JsonBody (JObj kvs)
        \<and> map_of kvs ''choices'' = Some (JArr (JObj ckvs # rest))
        \<and> map_of ckvs ''message'' = Some (JObj mkvs)
        \<and> map_of mkvs ''content'' = None
     \<longrightarrow> fst (chat_completion ep c msgs mt temp w) = Inl (KeyError ''content'')
         \<and> fst (web_chat_completion ep c msgs mt temp w) = Inl (KeyError ''content'')"
    by (auto simp: chat_completion_json shape)
  have c9: "ep (sent w) (chat_request c msgs mt temp) = Fails x
        \<and> (\<forall>d. x \<noteq> RequestException d)
     \<longrightarrow> fst (chat_completion ep c msgs mt temp w) = Inl x
         \<and> fst (web_chat_completion ep c msgs mt temp w) = Inl x"
    using chat_completion_escapes by blast
  have l1: "ep (sent w) (completion_request c p mt temp) = Fails (RequestException e)
     \<longrightarrow> completion ep c p mt temp w =
           (Inr JNull,
            w\<lparr>sent := sent w @ [completion_request c p mt temp],
              stdout := stdout w @ [''Error in completion: '' @ e]\<rparr>)"
    using completion_request_exception by blast
  have l2: "ep (sent w) (completion_request c p mt temp) = Returned r
        \<and> 400 \<le> status_code r \<and> status_code r < 600
     \<longrightarrow> completion ep c p mt temp w =
           (Inr JNull,
            w\<lparr>sent := sent w @ [completion_request c p mt temp],
              stdout := stdout w @
                [''Error in completion: '' @ str_of_nat (status_code r)
                 @ (if status_code r < 500 then '' Client Error: '' else '' Server Error: '')
                 @ reason r @ '' for url: '' @ base_url c @ ''/v1/completions'']\<rparr>)"
    using completion_error_status by blast
  have l3: "ep (sent w) (completion_request c p mt temp) = Returned r
        \<and> \<not> (400 \<le> status_code r \<and> status_code r < 600) \<and> body r = NotJson msg
     \<longrightarrow> completion ep c p mt temp w =
           (Inr JNull,
            w\<lparr>sent := sent w @ [completion_request c p mt temp],
              stdout := stdout w @ [''Error in completion: '' @ msg]\<rparr>)"
    using completion_not_json by blast
  have l4: "ep (sent w) (completion_request c p mt temp) = Returned r
        \<and> \<not> (400 \<le> status_code r \<and> status_code r < 600)
        \<and> body r = JsonBody (JObj kvs)
        \<and> map_of kvs ''choices'' = Some (JArr (JObj ckvs # rest))
        \<and> map_of ckvs ''text'' = Some v
     \<longrightarrow> fst (completion ep c p mt temp w) = Inr v"
    by (auto simp: completion_json shape)
  have l5: "ep (sent w) (completion_request c p mt temp) = Returned r
        \<and> \<not> (400 \<le> status_code r \<and> status_code r < 600)
        \<and> body r = JsonBody (JObj kvs)
        \<and> map_of kvs ''choices'' = None
     \<longrightarrow> fst (completion ep c p mt temp w) = Inl (KeyError ''choices'')"
    by (auto simp: completion_json shape)
  have l6: "ep (sent w) (completion_request c p mt temp) = Returned r
        \<and> \<not> (400 \<le> status_code r \<and> status_code r < 600)
        \<and> body r = JsonBody (JObj kvs)
        \<and> map_of kvs ''choices'' = Some (JArr [])
     \<longrightarrow> fst (completion ep c p mt temp w) = Inl IndexError"
    by (auto simp: completion_json shape)
  have l7: "ep (sent w) (completion_request c p mt temp) = Returned r
        \<and> \<not> (400 \<le> status_code r \<and> status_code r < 600)
        \<and> body r = JsonBody (JObj kvs)
        \<and> map_of kvs ''choices'' = Some (JArr (JObj ckvs # rest))
        \<and> map_of ckvs ''text'' = None
     \<longrightarrow> fst (completion ep c p mt temp w) = Inl (KeyError ''text'')"
    by (auto simp: completion_json shape)
  have l8: "ep (sent w) (completion_request c p mt temp) = Fails x
        \<and> (\<forall>d. x \<noteq> RequestException d)
     \<longrightarrow> fst (completion ep c p mt temp w) = Inl x"
    using completion_escapes by blast
  from c1 c2 c3 c4 c5 c6 c7 c8 c9 l1 l2 l3 l4 l5 l6 l7 l8 show ?thesis
    by (intro conjI)
qed

theorem completion_failure_value_witness:
  "chat_completion refusing_endpoint example_client [user_message ''Hi''] 100 (7 / 10) no_io =
     (Inr JNull,
      \<lparr>sent = [chat_request example_client [user_message ''Hi''] 100 (7 / 10)],
       stdout = [''Error in chat completion: Connection refused'']\<rparr>)
   \<and> web_chat_completion refusing_endpoint example_client [user_message ''Hi''] 100 (7 / 10)
       no_io =
     (Inr (Failure ''Connection refused''),
      \<lparr>sent = [chat_request example_client [user_message ''Hi''] 100 (7 / 10)],
       stdout = []\<rparr>)
   \<and> completion refusing_endpoint example_client ''The future of AI is'' 100 (7 / 10) no_io =
     (Inr JNull,
      \<lparr>sent = [completion_request example_client ''The future of AI is'' 100 (7 / 10)],
       stdout = [''Error in completion: Connection refused'']\<rparr>)
   \<and> stdout (snd (chat_completion unavailable_endpoint example_client [user_message ''Hi'']
                    100 (7 / 10) no_io)) =
       [''Error in chat completion: 503 Server Error: Service Unavailable for url: http://localhost:8080/v1/chat/completions'']
   \<and> fst (web_chat_completion unavailable_endpoint example_client [user_message ''Hi'']
            100 (7 / 10) no_io) =
       Inr (Failure ''503 Server Error: Service Unavailable for url: http://localhost:8080/v1/chat/completions'')
   \<and> stdout (snd (completion unavailable_endpoint example_client ''The future of AI is''
                    100 (7 / 10) no_io)) =
       [''Error in completion: 503 Server Error: Service Unavailable for url: http://localhost:8080/v1/completions'']
   \<and> fst (chat_completion html_endpoint example_client [user_message ''Hi''] 100 (7 / 10)
            no_io) = Inr JNull
   \<and> fst (web_chat_completion html_endpoint example_client [user_message ''Hi''] 100 (7 / 10)
            no_io) = Inr (Failure ''Expecting value: line 1 column 1 (char 0)'')
   \<and> fst (completion html_endpoint example_client ''The future of AI is'' 100 (7 / 10)
            no_io) = Inr JNull
   \<and> fst (chat_completion greeting_endpoint example_client [user_message ''Hi''] 100 (7 / 10)
            no_io) = Inr (JStr ''Hello!'')
   \<and> fst (web_chat_completion greeting_endpoint example_client [user_message ''Hi'']
            100 (7 / 10) no_io) = Inr (Success (JStr ''Hello!'') (JObj []))
   \<and> fst (completion greeting_endpoint example_client ''The future of AI is'' 100 (7 / 10)
            no_io) = Inr (JStr ''Hello!'')
   \<and> fst (chat_completion empty_object_endpoint example_client [user_message ''Hi'']
            100 (7 / 10) no_io) = Inl (KeyError ''choices'')
   \<and> fst (completion empty_object_endpoint example_client ''The future of AI is''
            100 (7 / 10) no_io) = Inl (KeyError ''choices'')
   \<and> fst (chat_completion no_choice_endpoint example_client [user_message ''Hi'']
            100 (7 / 10) no_io) = Inl IndexError
   \<and> fst (completion no_choice_endpoint example_client ''The future of AI is''
            100 (7 / 10) no_io) = Inl IndexError
   \<and> fst (chat_completion bare_choice_endpoint example_client [user_message ''Hi'']
            100 (7 / 10) no_io) = Inl (KeyError ''message'')
   \<and> fst (completion bare_choice_endpoint example_client ''The future of AI is''
            100 (7 / 10) no_io) = Inl (KeyError ''text'')
   \<and> fst (web_chat_completion bare_message_endpoint example_client [user_message ''Hi'']
            100 (7 / 10) no_io) = Inl (KeyError ''content'')
   \<and> fst (chat_completion unparsable_host_endpoint example_client [user_message ''Hi'']
            100 (7 / 10) no_io) = Inl (LocationParseError ''10.0.0..5'')
   \<and> fst (completion unparsable_host_endpoint example_client ''The future of AI is''
            100 (7 / 10) no_io) = Inl (LocationParseError ''10.0.0..5'')"
proof -
  note inst = completion_failure_value
                [where c = example_client and msgs = "[user_message ''Hi'']" and mt = 100
                   and temp = "7 / 10" and p = "''The future of AI is''" and w = no_io]
  have urls: "base_url example_client = ''http://localhost:8080''"
    by (simp add: example_client_def)
  have refused:
    "chat_completion refusing_endpoint example_client [user_message ''Hi''] 100 (7 / 10) no_io =
       (Inr JNull,
        \<lparr>sent = [chat_request example_client [user_message ''Hi''] 100 (7 / 10)],
         stdout = [''Error in chat completion: Connection refused'']\<rparr>)
     \<and> web_chat_completion refusing_endpoint example_client [user_message ''Hi'']
         100 (7 / 10) no_io =
       (Inr (Failure ''Connection refused''),
        \<lparr>sent = [chat_request example_client [user_message ''Hi''] 100 (7 / 10)],
         stdout = []\<rparr>)
     \<and> completion refusing_endpoint example_client ''The future of AI is'' 100 (7 / 10)
         no_io =
       (Inr JNull,
        \<lparr>sent = [completion_request example_client ''The future of AI is'' 100 (7 / 10)],
         stdout = [''Error in completion: Connection refused'']\<rparr>)"
    using inst [where ep = refusing_endpoint and e = "''Connection refused''"]
    by (simp add: refusing_endpoint_def no_io_def)
  have unavailable:
    "stdout (snd (chat_completion unavailable_endpoint example_client [user_message ''Hi'']
                    100 (7 / 10) no_io)) =
       [''Error in chat completion: 503 Server Error: Service Unavailable for url: http://localhost:8080/v1/chat/completions'']
     \<and> fst (web_chat_completion unavailable_endpoint example_client [user_message ''Hi'']
            100 (7 / 10) no_io) =
       Inr (Failure ''503 Server Error: Service Unavailable for url: http://localhost:8080/v1/chat/completions'')
     \<and> stdout (snd (completion unavailable_endpoint example_client ''The future of AI is''
                    100 (7 / 10) no_io)) =
       [''Error in completion: 503 Server Error: Service Unavailable for url: http://localhost:8080/v1/completions'']"
    using inst [where ep = unavailable_endpoint
                  and r = "\<lparr>status_code = 503, reason = ''Service Unavailable'',
                             body = NotJson ''Expecting value: line 1 column 1 (char 0)''\<rparr>"]
    by (simp add: unavailable_endpoint_def no_io_def urls str_of_nat_503)
  have html:
    "fst (chat_completion html_endpoint example_client [user_message ''Hi''] 100 (7 / 10)
            no_io) = Inr JNull
     \<and> fst (web_chat_completion html_endpoint example_client [user_message ''Hi'']
            100 (7 / 10) no_io) = Inr (Failure ''Expecting value: line 1 column 1 (char 0)'')
     \<and> fst (completion html_endpoint example_client ''The future of AI is'' 100 (7 / 10)
            no_io) = Inr JNull"
    using inst [where ep = html_endpoint
                  and r = "\<lparr>status_code = 200, reason = ''OK'',
                             body = NotJson ''Expecting value: line 1 column 1 (char 0)''\<rparr>"
                  and msg = "''Expecting value: line 1 column 1 (char 0)''"]
    by (simp add: html_endpoint_def)
  have greeting:
    "fst (chat_completion greeting_endpoint example_client [user_message ''Hi''] 100 (7 / 10)
            no_io) = Inr (JStr ''Hello!'')
     \<and> fst (web_chat_completion greeting_endpoint example_client [user_message ''Hi'']
            100 (7 / 10) no_io) = Inr (Success (JStr ''Hello!'') (JObj []))
     \<and> fst (completion greeting_endpoint example_client ''The future of AI is'' 100 (7 / 10)
            no_io) = Inr (JStr ''Hello!'')"
    using inst [where ep = greeting_endpoint
                  and r = "\<lparr>status_code = 200, reason = ''OK'',
                             body = JsonBody
                               (JObj [(''choices'',
                                       JArr [JObj [(''message'',
                                                    JObj [(''role'', JStr ''assistant''),
                                                          (''content'', JStr ''Hello!'')]),
                                                   (''text'', JStr ''Hello!'')]])])\<rparr>"
                  and kvs = "[(''choices'',
                               JArr [JObj [(''message'',
                                            JObj [(''role'', JStr ''assistant''),
                                                  (''content'', JStr ''Hello!'')]),
                                           (''text'', JStr ''Hello!'')]])]"
                  and ckvs = "[(''message'', JObj [(''role'', JStr ''assistant''),
                                                   (''content'', JStr ''Hello!'')]),
                               (''text'', JStr ''Hello!'')]"
                  and rest = "[]"
                  and mkvs = "[(''role'', JStr ''assistant''), (''content'', JStr ''Hello!'')]"
                  and v = "JStr ''Hello!''"]
    by (simp add: greeting_endpoint_def)
  have empty_object:
    "fst (chat_completion empty_object_endpoint example_client [user_message ''Hi'']
            100 (7 / 10) no_io) = Inl (KeyError ''choices'')
     \<and> fst (completion empty_object_endpoint example_client ''The future of AI is''
            100 (7 / 10) no_io) = Inl (KeyError ''choices'')"
    using inst [where ep = empty_object_endpoint
                  and r = "\<lparr>status_code = 200, reason = ''OK'', body = JsonBody (JObj [])\<rparr>"
                  and kvs = "[]"]
    by (simp add: empty_object_endpoint_def)
  have no_choice:
    "fst (chat_completion no_choice_endpoint example_client [user_message ''Hi'']
            100 (7 / 10) no_io) = Inl IndexError
     \<and> fst (completion no_choice_endpoint example_client ''The future of AI is''
            100 (7 / 10) no_io) = Inl IndexError"
    using inst [where ep = no_choice_endpoint
                  and r = "\<lparr>status_code = 200, reason = ''OK'',
                             body = JsonBody (JObj [(''choices'', JArr [])])\<rparr>"
                  and kvs = "[(''choices'', JArr [])]"]
    by (simp add: no_choice_endpoint_def)
  have bare_choice:
    "fst (chat_completion bare_choice_endpoint example_client [user_message ''Hi'']
            100 (7 / 10) no_io) = Inl (KeyError ''message'')
     \<and> fst (completion bare_choice_endpoint example_client ''The future of AI is''
            100 (7 / 10) no_io) = Inl (KeyError ''text'')"
    using inst [where ep = bare_choice_endpoint
                  and r = "\<lparr>status_code = 200, reason = ''OK'',
                             body = JsonBody (JObj [(''choices'', JArr [JObj []])])\<rparr>"
                  and kvs = "[(''choices'', JArr [JObj []])]"
                  and ckvs = "[]" and rest = "[]"]
    by (simp add: bare_choice_endpoint_def)
  have bare_message:
    "fst (web_chat_completion bare_message_endpoint example_client [user_message ''Hi'']
            100 (7 / 10) no_io) = Inl (KeyError ''content'')"
    using inst [where ep = bare_message_endpoint
                  and r = "\<lparr>status_code = 200, reason = ''OK'',
                             body = JsonBody
                               (JObj [(''choices'', JArr [JObj [(''message'', JObj [])]])])\<rparr>"
                  and kvs = "[(''choices'', JArr [JObj [(''message'', JObj [])]])]"
                  and ckvs = "[(''message'', JObj [])]" and rest = "[]"
                  and mkvs = "[]"]
    by (simp add: bare_message_endpoint_def)
  have unparsable:
    "fst (chat_completion unparsable_host_endpoint example_client [user_message ''Hi'']
            100 (7 / 10) no_io) = Inl (LocationParseError ''10.0.0..5'')
     \<and> fst (completion unparsable_host_endpoint example_client ''The future of AI is''
            100 (7 / 10) no_io) = Inl (LocationParseError ''10.0.0..5'')"
    using inst [where ep = unparsable_host_endpoint
                  and x = "LocationParseError ''10.0.0..5''"]
    by (simp add: unparsable_host_endpoint_def)
  from refused unavailable html greeting empty_object no_choice bare_choice bare_message
    unparsable
  show ?thesis by (intro conjI) (elim conjE, assumption)+
qed

section \<open>The model listing\<close>

lemma get_models_request_exception:
  assumes "ep (sent w) (models_request c) = Fails (RequestException e)"
  shows "get_models ep c w =
           (Inr (JArr []),
            w\<lparr>sent := sent w @ [models_request c],
              stdout := stdout w @ [''Error getting models: '' @ e]\<rparr>)"
    and "web_get_models ep c w =
           (Inr (JObj [(''error'', JStr e)]), w\<lparr>sent := sent w @ [models_request c]\<rparr>)"
  using assms
  by (simp_all add: get_models_def web_get_models_def requests_send_eq bind_res_def
        print_line_def)

lemma get_models_error_status:
  assumes "ep (sent w) (models_request c) = Returned r"
    and "400 \<le> status_code r" and "status_code r < 600"
  shows "get_models ep c w =
           (Inr (JArr []),
            w\<lparr>sent := sent w @ [models_request c],
              stdout := stdout w @
                [''Error getting models: '' @ str_of_nat (status_code r)
                 @ (if status_code r < 500 then '' Client Error: '' else '' Server Error: '')
                 @ reason r @ '' for url: '' @ base_url c @ ''/v1/models'']\<rparr>)"
    and "web_get_models ep c w =
           (Inr (JObj [(''error'',
                        JStr (str_of_nat (status_code r)
                              @ (if status_code r < 500 then '' Client Error: ''
                                 else '' Server Error: '')
                              @ reason r @ '' for url: '' @ base_url c @ ''/v1/models''))]),
            w\<lparr>sent := sent w @ [models_request c]\<rparr>)"
proof -
  have u: "url (models_request c) = base_url c @ ''/v1/models''"
    by (simp add: models_request_def)
  note rs = raise_for_status_error [OF assms(2,3), of "url (models_request c)"]
  show "get_models ep c w =
           (Inr (JArr []),
            w\<lparr>sent := sent w @ [models_request c],
              stdout := stdout w @
                [''Error getting models: '' @ str_of_nat (status_code r)
                 @ (if status_code r < 500 then '' Client Error: '' else '' Server Error: '')
                 @ reason r @ '' for url: '' @ base_url c @ ''/v1/models'']\<rparr>)"
    using assms(1) rs
    by (simp add: get_models_def requests_send_eq bind_res_def print_line_def u)
  show "web_get_models ep c w =
           (Inr (JObj [(''error'',
                        JStr (str_of_nat (status_code r)
                              @ (if status_code r < 500 then '' Client Error: ''
                                 else '' Server Error: '')
                              @ reason r @ '' for url: '' @ base_url c @ ''/v1/models''))]),
            w\<lparr>sent := sent w @ [models_request c]\<rparr>)"
    using assms(1) rs
    by (simp add: web_get_models_def requests_send_eq bind_res_def u)
qed

lemma get_models_not_json:
  assumes "ep (sent w) (models_request c) = Returned r"
    and "\<not> (400 \<le> status_code r \<and> status_code r < 600)"
    and "body r = NotJson msg"
  shows "get_models ep c w =
           (Inr (JArr []),
            w\<lparr>sent := sent w @ [models_request c],
              stdout := stdout w @ [''Error getting models: '' @ msg]\<rparr>)"
    and "web_get_models ep c w =
           (Inr (JObj [(''error'', JStr msg)]), w\<lparr>sent := sent w @ [models_request c]\<rparr>)"
  using assms(1,3) raise_for_status_ok [OF assms(2)]
  by (simp_all add: get_models_def web_get_models_def requests_send_eq bind_res_def
        print_line_def response_json_def)

lemma get_models_json_object:
  assumes "ep (sent w) (models_request c) = Returned r"
    and "\<not> (400 \<le> status_code r \<and> status_code r < 600)"
    and "body r = JsonBody (JObj kvs)"
  shows "fst (get_models ep c w) =
           (case map_of kvs ''data'' of None \<Rightarrow> Inl (KeyError ''data'') | Some v \<Rightarrow> Inr v)"
    and "fst (web_get_models ep c w) =
           (case map_of kvs ''data'' of None \<Rightarrow> Inl (KeyError ''data'') | Some v \<Rightarrow> Inr v)"
  using assms(1,3) raise_for_status_ok [OF assms(2)]
  by (simp_all add: get_models_def web_get_models_def requests_send_eq bind_res_def
        response_json_def split: option.splits)

lemma get_models_escapes:
  assumes "ep (sent w) (models_request c) = Fails x"
    and "\<forall>d. x \<noteq> RequestException d"
  shows "fst (get_models ep c w) = Inl x"
    and "fst (web_get_models ep c w) = Inl x"
  using assms
  by (cases x; simp add: get_models_def web_get_models_def requests_send_eq bind_res_def)+

text \<open>
  Claim C6, as stated: on every transport failure and every failure with a status that
  is not 2xx, neither variant of the model listing raises. It fails: the status 300 is
  not 2xx and is no error for \<open>raise_for_status\<close>, so on a response with the status
  300 and the body \<open>{}\<close> both variants raise \<open>KeyError\<close> for the key \<open>data\<close>; and with
  \<open>VLLM_IP=10.0.0..5\<close> both variants let the \<open>LocationParseError\<close> of the library
  through.
\<close>

theorem get_models_raises_on_redirect_status:
  "fst (get_models multiple_choices_endpoint example_client no_io) = Inl (KeyError ''data'')
   \<and> fst (web_get_models multiple_choices_endpoint example_client no_io)
       = Inl (KeyError ''data'')
   \<and> fst (get_models unparsable_host_endpoint
            (vllm_client_init None double_dot_environ no_kubectl) no_io)
       = Inl (LocationParseError ''10.0.0..5'')
   \<and> fst (web_get_models unparsable_host_endpoint
            (vllm_web_client_init None (get_vllm_base_url double_dot_environ no_kubectl))
            no_io)
       = Inl (LocationParseError ''10.0.0..5'')"
  by (simp add: get_models_def web_get_models_def requests_send_eq bind_res_def
        multiple_choices_endpoint_def unparsable_host_endpoint_def raise_for_status_def
        response_json_def)

text \<open>
  Claim C6, amended. When the library raises a \<open>RequestException\<close> (a transport
  failure), when the service answers with an error status (4xx or 5xx), and when the
  body of the response is no JSON document, neither variant of the model listing
  raises: the command-line variant returns the empty list and prints the line
  \<open>Error getting models: ...\<close> with the diagnostic, the web variant returns the object
  \<open>{error: ...}\<close> with the diagnostic. On a response with any other status (1xx and 3xx
  included) and a JSON object as body, both variants return the \<open>data\<close> of the body,
  and raise \<open>KeyError\<close> when the body has none; an exception of the library that is no
  \<open>RequestException\<close> reaches the caller.
\<close>

theorem get_models_failure_value:
  "(ep (sent w) (models_request c) = Fails (RequestException e)
     \<longrightarrow> get_models ep c w =
           (Inr (JArr []),
            w\<lparr>sent := sent w @ [models_request c],
              stdout := stdout w @ [''Error getting models: '' @ e]\<rparr>)
         \<and> web_get_models ep c w =
           (Inr (JObj [(''error'', JStr e)]), w\<lparr>sent := sent w @ [models_request c]\<rparr>))
   \<and> (ep (sent w) (models_request c) = Returned r
        \<and> 400 \<le> status_code r \<and> status_code r < 600
     \<longrightarrow> get_models ep c w =
           (Inr (JArr []),
            w\<lparr>sent := sent w @ [models_request c],
              stdout := stdout w @
                [''Error getting models: '' @ str_of_nat (status_code r)
                 @ (if status_code r < 500 then '' Client Error: '' else '' Server Error: '')
                 @ reason r @ '' for url: '' @ base_url c @ ''/v1/models'']\<rparr>)
         \<and> web_get_models ep c w =
           (Inr (JObj [(''error'',
                        JStr (str_of_nat (status_code r)
                              @ (if status_code r < 500 then '' Client Error: ''
                                 else '' Server Error: '')
                              @ reason r @ '' for url: '' @ base_url c @ ''/v1/models''))]),
            w\<lparr>sent := sent w @ [models_request c]\<rparr>))
   \<and> (ep (sent w) (models_request c) = Returned r
        \<and> \<not> (400 \<le> status_code r \<and> status_code r < 600) \<and> body r = NotJson msg
     \<longrightarrow> get_models ep c w =
           (Inr (JArr []),
            w\<lparr>sent := sent w @ [models_request c],
              stdout := stdout w @ [''Error getting models: '' @ msg]\<rparr>)
         \<and> web_get_models ep c w =
           (Inr (JObj [(''error'', JStr msg)]), w\<lparr>sent := sent w @ [models_request c]\<rparr>))
   \<and> (ep (sent w) (models_request c) = Returned r
        \<and> \<not> (400 \<le> status_code r \<and> status_code r < 600)
        \<and> body r = JsonBody (JObj kvs) \<and> map_of kvs ''data'' = Some v
     \<longrightarrow> fst (get_models ep c w) = Inr v \<and> fst (web_get_models ep c w) = Inr v)
   \<and> (ep (sent w) (models_request c) = Returned r
        \<and> \<not> (400 \<le> status_code r \<and> status_code r < 600)
        \<and> body r = JsonBody (JObj kvs) \<and> map_of kvs ''data'' = None
     \<longrightarrow> fst (get_models ep c w) = Inl (KeyError ''data'')
         \<and> fst (web_get_models ep c w) = Inl (KeyError ''data''))
   \<and> (ep (sent w) (models_request c) = Fails x \<and> (\<forall>d. x \<noteq> RequestException d)
     \<longrightarrow> fst (get_models ep c w) = Inl x \<and> fst (web_get_models ep c w) = Inl x)"
proof -
  have m1: "ep (sent w) (models_request c) = Fails (RequestException e)
     \<longrightarrow> get_models ep c w =
           (Inr (JArr []),
            w\<lparr>sent := sent w @ [models_request c],
              stdout := stdout w @ [''Error getting models: '' @ e]\<rparr>)
         \<and> web_get_models ep c w =
           (Inr (JObj [(''error'', JStr e)]), w\<lparr>sent := sent w @ [models_request c]\<rparr>)"
    using get_models_request_exception by blast
  have m2: "ep (sent w) (models_request c) = Returned r
        \<and> 400 \<le> status_code r \<and> status_code r < 600
     \<longrightarrow> get_models ep c w =
           (Inr (JArr []),
            w\<lparr>sent := sent w @ [models_request c],
              stdout := stdout w @
                [''Error getting models: '' @ str_of_nat (status_code r)
                 @ (if status_code r < 500 then '' Client Error: '' else '' Server Error: '')
                 @ reason r @ '' for url: '' @ base_url c @ ''/v1/models'']\<rparr>)
         \<and> web_get_models ep c w =
           (Inr (JObj [(''error'',
                        JStr (str_of_nat (status_code r)
                              @ (if status_code r < 500 then '' Client Error: ''
                                 else '' Server Error: '')
                              @ reason r @ '' for url: '' @ base_url c @ ''/v1/models''))]),
            w\<lparr>sent := sent w @ [models_request c]\<rparr>)"
    using get_models_error_status by blast
  have m3: "ep (sent w) (models_request c) = Returned r
        \<and> \<not> (400 \<le> status_code r \<and> status_code r < 600) \<and> body r = NotJson msg
     \<longrightarrow> get_models ep c w =
           (Inr (JArr []),
            w\<lparr>sent := sent w @ [models_request c],
              stdout := stdout w @ [''Error getting models: '' @ msg]\<rparr>)
         \<and> web_get_models ep c w =
           (Inr (JObj [(''error'', JStr msg)]), w\<lparr>sent := sent w @ [models_request c]\<rparr>)"
    using get_models_not_json by blast
  have m4: "ep (sent w) (models_request c) = Returned r
        \<and> \<not> (400 \<le> status_code r \<and> status_code r < 600)
        \<and> body r = JsonBody (JObj kvs) \<and> map_of kvs ''data'' = Some v
     \<longrightarrow> fst (get_models ep c w) = Inr v \<and> fst (web_get_models ep c w) = Inr v"
    by (auto simp: get_models_json_object)
  have m5: "ep (sent w) (models_request c) = Returned r
        \<and> \<not> (400 \<le> status_code r \<and> status_code r < 600)
        \<and> body r = JsonBody (JObj kvs) \<and> map_of kvs ''data'' = None
     \<longrightarrow> fst (get_models ep c w) = Inl (KeyError ''data'')
         \<and> fst (web_get_models ep c w) = Inl (KeyError ''data'')"
    by (auto simp: get_models_json_object)
  have m6: "ep (sent w) (models_request c) = Fails x \<and> (\<forall>d. x \<noteq> RequestException d)
     \<longrightarrow> fst (get_models ep c w) = Inl x \<and> fst (web_get_models ep c w) = Inl x"
    using get_models_escapes by blast
  from m1 m2 m3 m4 m5 m6 show ?thesis by (intro conjI)
qed

theorem get_models_failure_value_witness:
  "get_models refusing_endpoint example_client no_io =
     (Inr (JArr []),
      \<lparr>sent = [models_request example_client],
       stdout = [''Error getting models: Connection refused'']\<rparr>)
   \<and> web_get_models refusing_endpoint example_client no_io =
     (Inr (JObj [(''error'', JStr ''Connection refused'')]),
      \<lparr>sent = [models_request example_client], stdout = []\<rparr>)
   \<and> get_models unavailable_endpoint example_client no_io =
     (Inr (JArr []),
      \<lparr>sent = [models_request example_client],
       stdout = [''Error getting models: 503 Server Error: Service Unavailable for url: http://localhost:8080/v1/models'']\<rparr>)
   \<and> web_get_models unavailable_endpoint example_client no_io =
     (Inr (JObj [(''error'',
                  JStr ''503 Server Error: Service Unavailable for url: http://localhost:8080/v1/models'')]),
      \<lparr>sent = [models_request example_client], stdout = []\<rparr>)
   \<and> stdout (snd (get_models html_endpoint example_client no_io)) =
       [''Error getting models: Expecting value: line 1 column 1 (char 0)'']
   \<and> fst (web_get_models html_endpoint example_client no_io) =
       Inr (JObj [(''error'', JStr ''Expecting value: line 1 column 1 (char 0)'')])
   \<and> fst (get_models models_endpoint example_client no_io) =
       Inr (JArr [JObj [(''id'', JStr ''Qwen/Qwen2.5-1.5B-Instruct'')]])
   \<and> fst (web_get_models models_endpoint example_client no_io) =
       Inr (JArr [JObj [(''id'', JStr ''Qwen/Qwen2.5-1.5B-Instruct'')]])
   \<and> fst (get_models multiple_choices_endpoint example_client no_io) = Inl (KeyError ''data'')
   \<and> fst (web_get_models multiple_choices_endpoint example_client no_io)
       = Inl (KeyError ''data'')
   \<and> fst (get_models unparsable_host_endpoint example_client no_io)
       = Inl (LocationParseError ''10.0.0..5'')
   \<and> fst (web_get_models unparsable_host_endpoint example_client no_io)
       = Inl (LocationParseError ''10.0.0..5'')"
proof -
  note inst = get_models_failure_value [where c = example_client and w = no_io]
  have urls: "base_url example_client = ''http://localhost:8080''"
    by (simp add: example_client_def)
  have refused:
    "get_models refusing_endpoint example_client no_io =
       (Inr (JArr []),
        \<lparr>sent = [models_request example_client],
         stdout = [''Error getting models: Connection refused'']\<rparr>)
     \<and> web_get_models refusing_endpoint example_client no_io =
       (Inr (JObj [(''error'', JStr ''Connection refused'')]),
        \<lparr>sent = [models_request example_client], stdout = []\<rparr>)"
    using inst [where ep = refusing_endpoint and e = "''Connection refused''"]
    by (simp add: refusing_endpoint_def no_io_def)
  have unavailable:
    "get_models unavailable_endpoint example_client no_io =
       (Inr (JArr []),
        \<lparr>sent = [models_request example_client],
         stdout = [''Error getting models: 503 Server Error: Service Unavailable for url: http://localhost:8080/v1/models'']\<rparr>)
     \<and> web_get_models unavailable_endpoint example_client no_io =
       (Inr (JObj [(''error'',
                    JStr ''503 Server Error: Service Unavailable for url: http://localhost:8080/v1/models'')]),
        \<lparr>sent = [models_request example_client], stdout = []\<rparr>)"
    using inst [where ep = unavailable_endpoint
                  and r = "\<lparr>status_code = 503, reason = ''Service Unavailable'',
                             body = NotJson ''Expecting value: line 1 column 1 (char 0)''\<rparr>"]
    by (simp add: unavailable_endpoint_def no_io_def urls str_of_nat_503)
  have html:
    "stdout (snd (get_models html_endpoint example_client no_io)) =
       [''Error getting models: Expecting value: line 1 column 1 (char 0)'']
     \<and> fst (web_get_models html_endpoint example_client no_io) =
       Inr (JObj [(''error'', JStr ''Expecting value: line 1 column 1 (char 0)'')])"
    using inst [where ep = html_endpoint
                  and r = "\<lparr>status_code = 200, reason = ''OK'',
                             body = NotJson ''Expecting value: line 1 column 1 (char 0)''\<rparr>"
                  and msg = "''Expecting value: line 1 column 1 (char 0)''"]
    by (simp add: html_endpoint_def no_io_def)
  have listed:
    "fst (get_models models_endpoint example_client no_io) =
       Inr (JArr [JObj [(''id'', JStr ''Qwen/Qwen2.5-1.5B-Instruct'')]])
     \<and> fst (web_get_models models_endpoint example_client no_io) =
       Inr (JArr [JObj [(''id'', JStr ''Qwen/Qwen2.5-1.5B-Instruct'')]])"
    using inst [where ep = models_endpoint
                  and r = "\<lparr>status_code = 200, reason = ''OK'',
                             body = JsonBody
                               (JObj [(''data'',
                                       JArr [JObj [(''id'',
                                                    JStr ''Qwen/Qwen2.5-1.5B-Instruct'')]])])\<rparr>"
                  and kvs = "[(''data'',
                               JArr [JObj [(''id'', JStr ''Qwen/Qwen2.5-1.5B-Instruct'')]])]"
                  and v = "JArr [JObj [(''id'', JStr ''Qwen/Qwen2.5-1.5B-Instruct'')]]"]
    by (simp add: models_endpoint_def)
  have redirect:
    "fst (get_models multiple_choices_endpoint example_client no_io) = Inl (KeyError ''data'')
     \<and> fst (web_get_models multiple_choices_endpoint example_client no_io)
         = Inl (KeyError ''data'')"
    using inst [where ep = multiple_choices_endpoint
                  and r = "\<lparr>status_code = 300, reason = ''Multiple Choices'',
                             body = JsonBody (JObj [])\<rparr>"
                  and kvs = "[]"]
    by (simp add: multiple_choices_endpoint_def)
  have unparsable:
    "fst (get_models unparsable_host_endpoint example_client no_io)
       = Inl (LocationParseError ''10.0.0..5'')
     \<and> fst (web_get_models unparsable_host_endpoint example_client no_io)
       = Inl (LocationParseError ''10.0.0..5'')"
    using inst [where ep = unparsable_host_endpoint
                  and x = "LocationParseError ''10.0.0..5''"]
    by (simp add: unparsable_host_endpoint_def)
  from refused unavailable html listed redirect unparsable
  show ?thesis by (intro conjI) (elim conjE, assumption)+
qed

section \<open>Repeated calls\<close>

lemma chat_completion_result_independent:
  assumes "\<forall>h h' req. ep h req = ep h' req"
  shows "fst (chat_completion ep c msgs mt temp w) = fst (chat_completion ep c msgs mt temp w')"
proof -
  have "ep (sent w) (chat_request c msgs mt temp) = ep (sent w') (chat_request c msgs mt temp)"
    using assms by blast
  then show ?thesis
    by (simp add: chat_completion_def requests_send_eq split: sum.splits exn.splits)
qed

lemma completion_result_independent:
  assumes "\<forall>h h' req. ep h req = ep h' req"
  shows "fst (completion ep c p mt temp w) = fst (completion ep c p mt temp w')"
proof -
  have "ep (sent w) (completion_request c p mt temp)
          = ep (sent w') (completion_request c p mt temp)"
    using assms by blast
  then show ?thesis
    by (simp add: completion_def requests_send_eq split: sum.splits exn.splits)
qed

lemma web_chat_completion_result_independent:
  assumes "\<forall>h h' req. ep h req = ep h' req"
  shows "fst (web_chat_completion ep c msgs mt temp w) =
         fst (web_chat_completion ep c msgs mt temp w')"
proof -
  have "ep (sent w) (chat_request c msgs mt temp) = ep (sent w') (chat_request c msgs mt temp)"
    using assms by blast
  then show ?thesis
    by (simp add: web_chat_completion_def requests_send_eq split: sum.splits exn.splits)
qed

lemma chat_completion_sent_twice:
  "sent (snd (chat_completion ep c msgs mt temp (snd (chat_completion ep c msgs mt temp w))))
     = sent w @ [chat_request c msgs mt temp, chat_request c msgs mt temp]"
  by (simp add: chat_completion_def requests_send_eq print_line_def
        split: sum.splits exn.splits prod.splits)

lemma completion_sent_twice:
  "sent (snd (completion ep c p mt temp (snd (completion ep c p mt temp w))))
     = sent w @ [completion_request c p mt temp, completion_request c p mt temp]"
  by (simp add: completion_def requests_send_eq print_line_def
        split: sum.splits exn.splits prod.splits)

lemma web_chat_completion_sent_twice:
  "sent (snd (web_chat_completion ep c msgs mt temp
                (snd (web_chat_completion ep c msgs mt temp w))))
     = sent w @ [chat_request c msgs mt temp, chat_request c msgs mt temp]"
  by (simp add: web_chat_completion_def requests_send_eq
        split: sum.splits exn.splits prod.splits)

text \<open>
  The results of two calls with the same arguments can differ when the service answers
  by what it has seen before: the service that answers only its first request gives the
  content to the first call and the failure value to the second.
\<close>

lemma second_call_differs_at_stateful_service:
  "fst (chat_completion once_endpoint example_client [user_message ''Hi''] 100 (7 / 10) no_io)
     = Inr (JStr ''Hello!'')
   \<and> fst (chat_completion once_endpoint example_client [user_message ''Hi''] 100 (7 / 10)
            (snd (chat_completion once_endpoint example_client [user_message ''Hi'']
                    100 (7 / 10) no_io)))
     = Inr JNull"
  by (simp add: chat_completion_def requests_send_eq bind_res_def once_endpoint_def
        greeting_endpoint_def raise_for_status_def response_json_def chat_content_def
        no_io_def print_line_def)

text \<open>
  Claim C9. Let the endpoint be a deterministic stub: its answer to a request is a
  function of the request alone, whatever was requested before. Then for every
  transcript (or prompt), every client and every state of the effects, a second call of
  a completion operation with the arguments of the first, made in the state that the
  first call left, returns what the first returned (the same content, the same failure
  value or the same exception). The two calls send the same request, which is made of
  the two attributes of the client and the arguments only, so no state of the client
  enters a call or is left by it.
\<close>

theorem completion_twice_same_result:
  assumes "\<forall>h h' req. ep h req = ep h' req"
  shows "fst (chat_completion ep c msgs mt temp (snd (chat_completion ep c msgs mt temp w)))
           = fst (chat_completion ep c msgs mt temp w)
         \<and> fst (completion ep c p mt temp (snd (completion ep c p mt temp w)))
           = fst (completion ep c p mt temp w)
         \<and> fst (web_chat_completion ep c msgs mt temp
                  (snd (web_chat_completion ep c msgs mt temp w)))
           = fst (web_chat_completion ep c msgs mt temp w)
         \<and> sent (snd (chat_completion ep c msgs mt temp
                        (snd (chat_completion ep c msgs mt temp w))))
           = sent w @
             [\<lparr>http_method = POST, url = base_url c @ ''/v1/chat/completions'',
               headers = [(''Content-Type'', ''application/json'')],
               json_body = Some \<lparr>p_model = model c, p_input = Messages msgs,
                                 max_tokens = mt, temperature = temp, stream = False\<rparr>,
               timeout = 30\<rparr>,
              \<lparr>http_method = POST, url = base_url c @ ''/v1/chat/completions'',
               headers = [(''Content-Type'', ''application/json'')],
               json_body = Some \<lparr>p_model = model c, p_input = Messages msgs,
                                 max_tokens = mt, temperature = temp, stream = False\<rparr>,
               timeout = 30\<rparr>]
         \<and> sent (snd (web_chat_completion ep c msgs mt temp
                        (snd (web_chat_completion ep c msgs mt temp w))))
           = sent w @
             [\<lparr>http_method = POST, url = base_url c @ ''/v1/chat/completions'',
               headers = [(''Content-Type'', ''application/json'')],
               json_body = Some \<lparr>p_model = model c, p_input = Messages msgs,
                                 max_tokens = mt, temperature = temp, stream = False\<rparr>,
               timeout = 30\<rparr>,
              \<lparr>http_method = POST, url = base_url c @ ''/v1/chat/completions'',
               headers = [(''Content-Type'', ''application/json'')],
               json_body = Some \<lparr>p_model = model c, p_input = Messages msgs,
                                 max_tokens = mt, temperature = temp, stream = False\<rparr>,
               timeout = 30\<rparr>]
         \<and> sent (snd (completion ep c p mt temp (snd (completion ep c p mt temp w))))
           = sent w @
             [\<lparr>http_method = POST, url = base_url c @ ''/v1/completions'',
               headers = [(''Content-Type'', ''application/json'')],
               json_body = Some \<lparr>p_model = model c, p_input = Prompt p,
                                 max_tokens = mt, temperature = temp, stream = False\<rparr>,
               timeout = 30\<rparr>,
              \<lparr>http_method = POST, url = base_url c @ ''/v1/completions'',
               headers = [(''Content-Type'', ''application/json'')],
               json_body = Some \<lparr>p_model = model c, p_input = Prompt p,
                                 max_tokens = mt, temperature = temp, stream = False\<rparr>,
               timeout = 30\<rparr>]"
proof (intro conjI)
  show "fst (chat_completion ep c msgs mt temp (snd (chat_completion ep c msgs mt temp w)))
           = fst (chat_completion ep c msgs mt temp w)"
    by (rule chat_completion_result_independent [OF assms])
  show "fst (completion ep c p mt temp (snd (completion ep c p mt temp w)))
           = fst (completion ep c p mt temp w)"
    by (rule completion_result_independent [OF assms])
  show "fst (web_chat_completion ep c msgs mt temp
                  (snd (web_chat_completion ep c msgs mt temp w)))
           = fst (web_chat_completion ep c msgs mt temp w)"
    by (rule web_chat_completion_result_independent [OF assms])
qed (simp_all add: chat_completion_sent_twice web_chat_completion_sent_twice
       completion_sent_twice chat_request_def completion_request_def)

theorem completion_twice_same_result_witness:
  "fst (chat_completion greeting_endpoint example_client [user_message ''Hi''] 100 (7 / 10)
          (snd (chat_completion greeting_endpoint example_client [user_message ''Hi'']
                  100 (7 / 10) no_io)))
     = fst (chat_completion greeting_endpoint example_client [user_message ''Hi'']
              100 (7 / 10) no_io)
   \<and> fst (completion greeting_endpoint example_client ''The future of AI is'' 100 (7 / 10)
          (snd (completion greeting_endpoint example_client ''The future of AI is''
                  100 (7 / 10) no_io)))
     = fst (completion greeting_endpoint example_client ''The future of AI is''
              100 (7 / 10) no_io)
   \<and> fst (web_chat_completion greeting_endpoint example_client [user_message ''Hi'']
          100 (7 / 10)
          (snd (web_chat_completion greeting_endpoint example_client [user_message ''Hi'']
                  100 (7 / 10) no_io)))
     = fst (web_chat_completion greeting_endpoint example_client [user_message ''Hi'']
              100 (7 / 10) no_io)
   \<and> sent (snd (chat_completion greeting_endpoint example_client [user_message ''Hi'']
                  100 (7 / 10)
                  (snd (chat_completion greeting_endpoint example_client
                          [user_message ''Hi''] 100 (7 / 10) no_io))))
     = [\<lparr>http_method = POST, url = ''http://localhost:8080/v1/chat/completions'',
         headers = [(''Content-Type'', ''application/json'')],
         json_body = Some \<lparr>p_model = ''Qwen/Qwen2.5-1.5B-Instruct'',
                           p_input = Messages [\<lparr>role = ''user'', content = JStr ''Hi''\<rparr>],
                           max_tokens = 100, temperature = 7 / 10, stream = False\<rparr>,
         timeout = 30\<rparr>,
        \<lparr>http_method = POST, url = ''http://localhost:8080/v1/chat/completions'',
         headers = [(''Content-Type'', ''application/json'')],
         json_body = Some \<lparr>p_model = ''Qwen/Qwen2.5-1.5B-Instruct'',
                           p_input = Messages [\<lparr>role = ''user'', content = JStr ''Hi''\<rparr>],
                           max_tokens = 100, temperature = 7 / 10, stream = False\<rparr>,
         timeout = 30\<rparr>]"
proof -
  have stub: "\<forall>h h' req. greeting_endpoint h req = greeting_endpoint h' req"
    by (simp add: greeting_endpoint_def)
  show ?thesis
    using completion_twice_same_result
            [OF stub, where c = example_client and msgs = "[user_message ''Hi'']"
               and mt = 100 and temp = "7 / 10" and p = "''The future of AI is''"
               and w = no_io]
    by (simp add: example_client_def MODEL_NAME_def user_message_def no_io_def)
qed

section \<open>Timeouts\<close>

lemma health_check_sent: "sent (snd (health_check ep c w)) = sent w @ [health_request c]"
  by (simp add: health_check_def requests_send_eq split: http_outcome.splits exn.splits)

lemma web_health_check_sent:
  "sent (snd (web_health_check ep c w)) = sent w @ [web_health_request c]"
  by (simp add: web_health_check_def requests_send_eq split: http_outcome.splits exn.splits)

lemma get_models_sent: "sent (snd (get_models ep c w)) = sent w @ [models_request c]"
  by (simp add: get_models_def requests_send_eq print_line_def
        split: sum.splits exn.splits)

lemma web_get_models_sent: "sent (snd (web_get_models ep c w)) = sent w @ [models_request c]"
  by (simp add: web_get_models_def requests_send_eq split: sum.splits exn.splits)

lemma chat_completion_sent:
  "sent (snd (chat_completion ep c msgs mt temp w)) = sent w @ [chat_request c msgs mt temp]"
  by (simp add: chat_completion_def requests_send_eq print_line_def
        split: sum.splits exn.splits)

lemma completion_sent:
  "sent (snd (completion ep c p mt temp w)) = sent w @ [completion_request c p mt temp]"
  by (simp add: completion_def requests_send_eq print_line_def
        split: sum.splits exn.splits)

lemma web_chat_completion_snd:
  "snd (web_chat_completion ep c msgs mt temp w) =
     w\<lparr>sent := sent w @ [chat_request c msgs mt temp]\<rparr>"
  by (simp add: web_chat_completion_def requests_send_eq split: sum.splits exn.splits)

text \<open>
  Claim C7, as stated: the timeout of the health and model-list requests is a
  single-digit number of seconds. It fails: the health check of the command-line client
  sends its request with a timeout of 10 seconds.
\<close>

theorem health_timeout_not_single_digit:
  "sent (snd (health_check refusing_endpoint example_client no_io))
     = [health_request example_client]
   \<and> \<not> timeout (health_request example_client) \<le> 9"
  by (simp add: health_check_sent no_io_def health_request_def)

text \<open>
  Claim C7, amended. Every client operation sends exactly one request. The timeout of
  the health and model-list requests is 10 seconds in the command-line client, and 5
  seconds (health) and 10 seconds (model list) in the web client; the timeout of every
  completion request is 30 seconds. So each health or model-list timeout is at most 10
  seconds and strictly shorter than the completion timeout.
\<close>

theorem request_timeouts:
  "sent (snd (health_check ep c w)) = sent w @ [health_request c]
   \<and> sent (snd (get_models ep c w)) = sent w @ [models_request c]
   \<and> sent (snd (web_health_check ep c w)) = sent w @ [web_health_request c]
   \<and> sent (snd (web_get_models ep c w)) = sent w @ [models_request c]
   \<and> sent (snd (chat_completion ep c msgs mt temp w)) = sent w @ [chat_request c msgs mt temp]
   \<and> sent (snd (completion ep c p mt temp w)) = sent w @ [completion_request c p mt temp]
   \<and> sent (snd (web_chat_completion ep c msgs mt temp w))
       = sent w @ [chat_request c msgs mt temp]
   \<and> timeout (health_request c) = 10
   \<and> timeout (models_request c) = 10
   \<and> timeout (web_health_request c) = 5
   \<and> timeout (chat_request c msgs mt temp) = 30
   \<and> timeout (completion_request c p mt temp) = 30
   \<and> timeout (health_request c) < timeout (chat_request c msgs mt temp)
   \<and> timeout (models_request c) < timeout (chat_request c msgs mt temp)
   \<and> timeout (web_health_request c) < timeout (chat_request c msgs mt temp)
   \<and> timeout (health_request c) < timeout (completion_request c p mt temp)
   \<and> timeout (models_request c) < timeout (completion_request c p mt temp)"
  by (simp add: health_check_sent get_models_sent web_health_check_sent web_get_models_sent
        chat_completion_sent completion_sent web_chat_completion_snd
        health_request_def models_request_def web_health_request_def chat_request_def
        completion_request_def)

section \<open>Endpoint resolution: the order of the sources\<close>

text \<open>
  Claim C3. The base URL comes from the first source that gives one, in the order:
  override of the caller, environment variable \<open>VLLM_IP\<close>, service discovery by
  \<open>kubectl\<close>, fixed fallback. With \<open>VLLM_IP=10.0.0.5\<close> and no override the base URL
  is \<open>http://10.0.0.5:8080\<close>, whatever the discovery would give. When the variable is
  absent and the discovery fails (non-zero return code) or raises an error (timeout,
  missing tool), the base URL is \<open>http://localhost:8080\<close>: the resolution returns a
  URL for every outcome of the discovery and raises nothing.
\<close>

theorem endpoint_resolution_order:
  "base_url (vllm_client_init (Some u) env k) = u
   \<and> (u' \<noteq> [] \<longrightarrow> base_url (vllm_web_client_init (Some u') g) = u')
   \<and> base_url (vllm_web_client_init None (get_vllm_base_url env k)) = get_vllm_base_url env k
   \<and> (env1 ''VLLM_IP'' = Some ip \<and> ip \<noteq> []
        \<longrightarrow> base_url (vllm_client_init None env1 k) = ''http://'' @ ip @ '':8080''
            \<and> get_vllm_base_url env1 k = ''http://'' @ ip @ '':8080'')
   \<and> (env2 ''VLLM_IP'' = Some ''10.0.0.5''
        \<longrightarrow> base_url (vllm_client_init None env2 k) = ''http://10.0.0.5:8080''
            \<and> get_vllm_base_url env2 k = ''http://10.0.0.5:8080'')
   \<and> ((env3 ''VLLM_IP'' = None \<or> env3 ''VLLM_IP'' = Some [])
        \<and> str_strip out \<noteq> []
        \<longrightarrow> base_url (vllm_client_init None env3 (Completed 0 out))
              = ''http://'' @ str_strip out @ '':8080''
            \<and> get_vllm_base_url env3 (Completed 0 out)
              = ''http://'' @ str_strip out @ '':8080'')
   \<and> (env4 ''VLLM_IP'' = None
        \<and> (k4 = Raised e \<or> (k4 = Completed rc out4 \<and> (rc \<noteq> 0 \<or> str_strip out4 = [])))
        \<longrightarrow> base_url (vllm_client_init None env4 k4) = ''http://localhost:8080''
            \<and> get_vllm_base_url env4 k4 = ''http://localhost:8080'')"
proof (intro conjI impI)
  show "base_url (vllm_client_init (Some u) env k) = u"
    by (simp add: vllm_client_init_def)
  show "base_url (vllm_web_client_init None (get_vllm_base_url env k))
          = get_vllm_base_url env k"
    by (simp add: vllm_web_client_init_def)
next
  assume "u' \<noteq> []"
  then show "base_url (vllm_web_client_init (Some u') g) = u'"
    by (simp add: vllm_web_client_init_def)
next
  assume a: "env1 ''VLLM_IP'' = Some ip \<and> ip \<noteq> []"
  then show "base_url (vllm_client_init None env1 k) = ''http://'' @ ip @ '':8080''"
    by (simp add: vllm_client_init_def Let_def)
  from a show "get_vllm_base_url env1 k = ''http://'' @ ip @ '':8080''"
    by (simp add: get_vllm_base_url_def Let_def)
next
  assume a: "env2 ''VLLM_IP'' = Some ''10.0.0.5''"
  then show "base_url (vllm_client_init None env2 k) = ''http://10.0.0.5:8080''"
    by (simp add: vllm_client_init_def Let_def)
  from a show "get_vllm_base_url env2 k = ''http://10.0.0.5:8080''"
    by (simp add: get_vllm_base_url_def Let_def)
next
  assume a: "(env3 ''VLLM_IP'' = None \<or> env3 ''VLLM_IP'' = Some []) \<and> str_strip out \<noteq> []"
  then show "base_url (vllm_client_init None env3 (Completed 0 out))
               = ''http://'' @ str_strip out @ '':8080''"
    by (auto simp: vllm_client_init_def Let_def)
  from a show "get_vllm_base_url env3 (Completed 0 out)
               = ''http://'' @ str_strip out @ '':8080''"
    by (auto simp: get_vllm_base_url_def Let_def)
next
  assume a: "env4 ''VLLM_IP'' = None
        \<and> (k4 = Raised e \<or> (k4 = Completed rc out4 \<and> (rc \<noteq> 0 \<or> str_strip out4 = [])))"
  then show "base_url (vllm_client_init None env4 k4) = ''http://localhost:8080''"
    by (auto simp: vllm_client_init_def Let_def)
  from a show "get_vllm_base_url env4 k4 = ''http://localhost:8080''"
    by (auto simp: get_vllm_base_url_def Let_def)
qed

theorem endpoint_resolution_order_witness:
  "base_url (vllm_web_client_init (Some ''http://10.9.8.7:8000'') ''http://localhost:8080'')
     = ''http://10.9.8.7:8000''
   \<and> base_url (vllm_client_init None [''VLLM_IP'' \<mapsto> ''10.0.0.5''] (Completed 0 ''10.1.2.3''))
       = ''http://10.0.0.5:8080''
   \<and> get_vllm_base_url [''VLLM_IP'' \<mapsto> ''10.0.0.5''] (Completed 0 ''10.1.2.3'')
       = ''http://10.0.0.5:8080''
   \<and> base_url (vllm_client_init None Map.empty (Completed 0 '' 10.1.2.3 ''))
       = ''http://10.1.2.3:8080''
   \<and> get_vllm_base_url Map.empty (Completed 0 '' 10.1.2.3 '') = ''http://10.1.2.3:8080''
   \<and> base_url (vllm_client_init None Map.empty (Raised ''TimeoutExpired''))
       = ''http://localhost:8080''
   \<and> get_vllm_base_url Map.empty (Raised ''TimeoutExpired'') = ''http://localhost:8080''"
proof -
  have s: "str_strip '' 10.1.2.3 '' = ''10.1.2.3''"
    by (simp add: str_strip_def is_space_def)
  show ?thesis
    using endpoint_resolution_order
            [where u' = "''http://10.9.8.7:8000''" and g = "''http://localhost:8080''"
               and ?env1.0 = "[''VLLM_IP'' \<mapsto> ''10.0.0.5'']" and ip = "''10.0.0.5''"
               and ?env2.0 = "[''VLLM_IP'' \<mapsto> ''10.0.0.5'']"
               and k = "Completed 0 ''10.1.2.3''"
               and ?env3.0 = Map.empty and out = "'' 10.1.2.3 ''"
               and ?env4.0 = Map.empty and ?k4.0 = "Raised ''TimeoutExpired''"
               and e = "''TimeoutExpired''"]
    by (simp add: s)
qed

section \<open>The interactive loop on the input hello, clear, quit\<close>

lemma loop_clear_quit:
  "interactive_loop ep client [Line ''clear'', Line ''quit''] m w = Some ([], [], w)"
proof -
  have strip: "str_strip ''clear'' = ''clear''" "str_strip ''quit'' = ''quit''"
    by (simp_all add: str_strip_def is_space_def)
  have low: "str_lower ''clear'' = ''clear''" "str_lower ''quit'' = ''quit''"
    by (simp_all add: str_lower_def lower_char_def)
  have quit: "interactive_loop ep client [Line ''quit''] [] w = Some ([], [], w)"
    by (subst interactive_loop.simps) (simp add: strip low)
  show ?thesis
    by (subst interactive_loop.simps) (simp add: strip low quit)
qed

text \<open>
  Claim C8. On the input lines \<open>hello\<close>, \<open>clear\<close>, \<open>quit\<close>, for every endpoint and
  every resolved client, the interactive loop returns (it raises nothing and does not
  run on) with the empty transcript and no input left. It has sent exactly one request:
  the POST to \<open>/v1/chat/completions\<close> whose transcript is the one message with the
  role \<open>user\<close> and the content \<open>hello\<close>. Whatever the transcript is when the loop reads
  \<open>clear\<close>, the transcript is empty afterwards.
\<close>

theorem interactive_chat_hello_clear_quit:
  "(\<exists>w'. interactive_chat ep env k [Line ''hello'', Line ''clear'', Line ''quit''] w
           = Some ([], [], w')
         \<and> sent w' = sent w @
             [\<lparr>http_method = POST,
               url = base_url (vllm_client_init None env k) @ ''/v1/chat/completions'',
               headers = [(''Content-Type'', ''application/json'')],
               json_body = Some \<lparr>p_model = ''Qwen/Qwen2.5-1.5B-Instruct'',
                                 p_input = Messages [\<lparr>role = ''user'',
                                                      content = JStr ''hello''\<rparr>],
                                 max_tokens = 200, temperature = 7 / 10, stream = False\<rparr>,
               timeout = 30\<rparr>])
   \<and> interactive_loop ep client [Line ''clear'', Line ''quit''] m w = Some ([], [], w)"
proof
  let ?c = "vllm_client_init None env k"
  have strip: "str_strip ''hello'' = ''hello''"
    by (simp add: str_strip_def is_space_def)
  have low: "str_lower ''hello'' = ''hello''"
    by (simp add: str_lower_def lower_char_def)
  have req: "chat_request ?c [user_message ''hello''] 200 (7 / 10) =
      \<lparr>http_method = POST,
       url = base_url (vllm_client_init None env k) @ ''/v1/chat/completions'',
       headers = [(''Content-Type'', ''application/json'')],
       json_body = Some \<lparr>p_model = ''Qwen/Qwen2.5-1.5B-Instruct'',
                         p_input = Messages [\<lparr>role = ''user'', content = JStr ''hello''\<rparr>],
                         max_tokens = 200, temperature = 7 / 10, stream = False\<rparr>,
       timeout = 30\<rparr>"
    by (simp add: chat_request_def user_message_def vllm_client_init_def)
  obtain r w1 where cc: "chat_completion ep ?c [user_message ''hello''] 200 (7 / 10) w = (r, w1)"
    by (cases "chat_completion ep ?c [user_message ''hello''] 200 (7 / 10) w")
  have "sent w1 = sent w @ [chat_request ?c [user_message ''hello''] 200 (7 / 10)]"
    using chat_completion_sent [of ep ?c "[user_message ''hello'']" 200 "7 / 10" w] cc
    by simp
  moreover have "interactive_loop ep ?c [Line ''hello'', Line ''clear'', Line ''quit''] [] w
      = Some ([], [], w1)"
    by (subst interactive_loop.simps)
       (simp add: strip low cc loop_clear_quit Let_def split: sum.splits)
  ultimately show "\<exists>w'. interactive_chat ep env k [Line ''hello'', Line ''clear'', Line ''quit''] w
           = Some ([], [], w')
         \<and> sent w' = sent w @
             [\<lparr>http_method = POST,
               url = base_url (vllm_client_init None env k) @ ''/v1/chat/completions'',
               headers = [(''Content-Type'', ''application/json'')],
               json_body = Some \<lparr>p_model = ''Qwen/Qwen2.5-1.5B-Instruct'',
                                 p_input = Messages [\<lparr>role = ''user'',
                                                      content = JStr ''hello''\<rparr>],
                                 max_tokens = 200, temperature = 7 / 10, stream = False\<rparr>,
               timeout = 30\<rparr>]"
    by (simp add: interactive_chat_def req)
next
  show "interactive_loop ep client [Line ''clear'', Line ''quit''] m w = Some ([], [], w)"
    by (rule loop_clear_quit)
qed

section \<open>The chat route and the session\<close>

lemma api_chat_message:
  assumes "map_of kvs ''message'' = Some (JStr m)" and "str_strip m \<noteq> []"
  shows "api_chat ep client (JObj kvs) s w =
          (let history = (case chat_history (store s) of None \<Rightarrow> [] | Some h \<Rightarrow> h)
                           @ [user_message (str_strip m)];
               s1 = (case chat_history (store s) of
                       None \<Rightarrow> s
                     | Some h \<Rightarrow> s\<lparr>store := (store s)\<lparr>chat_history := Some history\<rparr>\<rparr>)
           in case web_chat_completion ep client history 200 (7 / 10) w of
                (Inl e, w1) \<Rightarrow> (Inl e, s1, w1)
              | (Inr (Success cont usage), w1) \<Rightarrow>
                  (Inr (jsonify (JObj [(''success'', JBool True), (''response'', cont),
                                        (''usage'', usage)]) 200),
                   s1\<lparr>store := (store s1)\<lparr>chat_history :=
                                    Some (history @ [assistant_message cont])\<rparr>,
                      modified := True\<rparr>,
                   w1)
              | (Inr (Failure e), w1) \<Rightarrow>
                  (Inr (jsonify (JObj [(''success'', JBool False), (''error'', JStr e)]) 500),
                   s1, w1))"
  using assms by (simp add: api_chat_def bind_res_def)

lemma post_api_chat_success:
  assumes "map_of kvs ''message'' = Some (JStr m)" and "str_strip m \<noteq> []"
    and "fst (web_chat_completion ep client
               ((case chat_history cookie of None \<Rightarrow> [] | Some h \<Rightarrow> h)
                  @ [user_message (str_strip m)]) 200 (7 / 10) w) = Inr (Success cont usage)"
  shows "post_api_chat ep client (JObj kvs) cookie w =
           (Inr (jsonify (JObj [(''success'', JBool True), (''response'', cont),
                                 (''usage'', usage)]) 200),
            cookie\<lparr>chat_history :=
                     Some ((case chat_history cookie of None \<Rightarrow> [] | Some h \<Rightarrow> h)
                             @ [user_message (str_strip m), assistant_message cont])\<rparr>,
            w\<lparr>sent := sent w @ [chat_request client
                                   ((case chat_history cookie of None \<Rightarrow> [] | Some h \<Rightarrow> h)
                                      @ [user_message (str_strip m)]) 200 (7 / 10)]\<rparr>)"
proof -
  let ?h = "(case chat_history cookie of None \<Rightarrow> [] | Some h \<Rightarrow> h)
              @ [user_message (str_strip m)]"
  have "web_chat_completion ep client ?h 200 (7 / 10) w =
          (Inr (Success cont usage), w\<lparr>sent := sent w @ [chat_request client ?h 200 (7 / 10)]\<rparr>)"
    using assms(3) web_chat_completion_snd [of ep client ?h 200 "7 / 10" w]
    by (cases "web_chat_completion ep client ?h 200 (7 / 10) w") simp
  then show ?thesis
    by (simp add: post_api_chat_def api_chat_message [OF assms(1,2)] open_session_def
          save_session_def Let_def split: option.splits)
qed

lemma post_api_chat_sent:
  assumes "map_of kvs ''message'' = Some (JStr m)" and "str_strip m \<noteq> []"
  shows "sent (snd (snd (post_api_chat ep client (JObj kvs) cookie w))) =
           sent w @ [chat_request client
                       ((case chat_history cookie of None \<Rightarrow> [] | Some h \<Rightarrow> h)
                          @ [user_message (str_strip m)]) 200 (7 / 10)]"
proof -
  let ?h = "(case chat_history cookie of None \<Rightarrow> [] | Some h \<Rightarrow> h)
              @ [user_message (str_strip m)]"
  obtain r w1 where cc: "web_chat_completion ep client ?h 200 (7 / 10) w = (r, w1)"
    by (cases "web_chat_completion ep client ?h 200 (7 / 10) w")
  then have "w1 = w\<lparr>sent := sent w @ [chat_request client ?h 200 (7 / 10)]\<rparr>"
    using web_chat_completion_snd [of ep client ?h 200 "7 / 10" w] by simp
  then show ?thesis using cc
    by (simp add: post_api_chat_def api_chat_message [OF assms] open_session_def Let_def
          split: sum.splits completion_result.splits)
qed

lemma post_api_chat_failure:
  assumes "map_of kvs ''message'' = Some (JStr m)" and "str_strip m \<noteq> []"
    and "fst (web_chat_completion ep client
               ((case chat_history cookie of None \<Rightarrow> [] | Some h \<Rightarrow> h)
                  @ [user_message (str_strip m)]) 200 (7 / 10) w) = Inr (Failure e)"
  shows "post_api_chat ep client (JObj kvs) cookie w =
           (Inr (jsonify (JObj [(''success'', JBool False), (''error'', JStr e)]) 500),
            cookie,
            w\<lparr>sent := sent w @ [chat_request client
                                   ((case chat_history cookie of None \<Rightarrow> [] | Some h \<Rightarrow> h)
                                      @ [user_message (str_strip m)]) 200 (7 / 10)]\<rparr>)"
proof -
  let ?h = "(case chat_history cookie of None \<Rightarrow> [] | Some h \<Rightarrow> h)
              @ [user_message (str_strip m)]"
  have "web_chat_completion ep client ?h 200 (7 / 10) w =
          (Inr (Failure e), w\<lparr>sent := sent w @ [chat_request client ?h 200 (7 / 10)]\<rparr>)"
    using assms(3) web_chat_completion_snd [of ep client ?h 200 "7 / 10" w]
    by (cases "web_chat_completion ep client ?h 200 (7 / 10) w") simp
  then show ?thesis
    by (simp add: post_api_chat_def api_chat_message [OF assms(1,2)] open_session_def
          save_session_def Let_def split: option.splits)
qed

lemma strip_Hi: "str_strip ''Hi'' = ''Hi''"
  by (simp add: str_strip_def is_space_def)

lemma strip_How_are_you: "str_strip ''How are you?'' = ''How are you?''"
  by (simp add: str_strip_def is_space_def)

text \<open>
  Claim C2. In a fresh web session (the cookie holds no transcript, or the empty
  transcript that the route \<open>/\<close> stores), let a POST to \<open>/api/chat\<close> with the message
  \<open>Hi\<close> be followed, from the same browser, by a POST with the message
  \<open>How are you?\<close>. If the completion of the first request succeeds with the reply
  \<open>reply\<close>, then the cookie after the first request holds the transcript of the two
  messages user \<open>Hi\<close> and assistant \<open>reply\<close>, and the two requests sent to the service
  are, in order, the chat completion whose transcript is the one message user \<open>Hi\<close>,
  and the chat completion whose transcript is exactly the three messages user \<open>Hi\<close>,
  assistant \<open>reply\<close>, user \<open>How are you?\<close>.
\<close>

theorem transcript_accumulates:
  assumes "chat_history cookie = None \<or> chat_history cookie = Some []"
    and "fst (web_chat_completion ep client [\<lparr>role = ''user'', content = JStr ''Hi''\<rparr>]
                200 (7 / 10) w)
           = Inr (Success reply usage)"
  shows "chat_history (fst (snd (post_api_chat ep client (JObj [(''message'', JStr ''Hi'')])
                                   cookie w)))
           = Some [\<lparr>role = ''user'', content = JStr ''Hi''\<rparr>,
                   \<lparr>role = ''assistant'', content = reply\<rparr>]
         \<and> sent (snd (snd (post_api_chat ep client (JObj [(''message'', JStr ''How are you?'')])
                        (fst (snd (post_api_chat ep client (JObj [(''message'', JStr ''Hi'')])
                                     cookie w)))
                        (snd (snd (post_api_chat ep client (JObj [(''message'', JStr ''Hi'')])
                                     cookie w))))))
           = sent w @
             [\<lparr>http_method = POST, url = base_url client @ ''/v1/chat/completions'',
               headers = [(''Content-Type'', ''application/json'')],
               json_body =
                 Some \<lparr>p_model = model client,
                       p_input = Messages [\<lparr>role = ''user'', content = JStr ''Hi''\<rparr>],
                       max_tokens = 200, temperature = 7 / 10, stream = False\<rparr>,
               timeout = 30\<rparr>,
              \<lparr>http_method = POST, url = base_url client @ ''/v1/chat/completions'',
               headers = [(''Content-Type'', ''application/json'')],
               json_body =
                 Some \<lparr>p_model = model client,
                       p_input = Messages [\<lparr>role = ''user'', content = JStr ''Hi''\<rparr>,
                                           \<lparr>role = ''assistant'', content = reply\<rparr>,
                                           \<lparr>role = ''user'',
                                            content = JStr ''How are you?''\<rparr>],
                       max_tokens = 200, temperature = 7 / 10, stream = False\<rparr>,
               timeout = 30\<rparr>]"
proof -
  let ?post1 = "post_api_chat ep client (JObj [(''message'', JStr ''Hi'')]) cookie w"
  have h: "(case chat_history cookie of None \<Rightarrow> [] | Some h \<Rightarrow> h) = []"
    using assms(1) by auto
  have m1: "map_of [(''message'', JStr ''Hi'')] ''message'' = Some (JStr ''Hi'')"
    by simp
  have ne1: "str_strip ''Hi'' \<noteq> []"
    by (simp add: strip_Hi)
  have ok: "fst (web_chat_completion ep client
               ((case chat_history cookie of None \<Rightarrow> [] | Some h \<Rightarrow> h)
                  @ [user_message (str_strip ''Hi'')]) 200 (7 / 10) w)
              = Inr (Success reply usage)"
    using assms(2) by (simp add: h strip_Hi user_message_def)
  have first: "?post1 =
      (Inr (jsonify (JObj [(''success'', JBool True), (''response'', reply),
                            (''usage'', usage)]) 200),
       cookie\<lparr>chat_history := Some [user_message ''Hi'', assistant_message reply]\<rparr>,
       w\<lparr>sent := sent w @ [chat_request client [user_message ''Hi''] 200 (7 / 10)]\<rparr>)"
    using post_api_chat_success [OF m1 ne1 ok] by (simp add: h strip_Hi)
  have m2: "map_of [(''message'', JStr ''How are you?'')] ''message''
              = Some (JStr ''How are you?'')"
    by simp
  have ne2: "str_strip ''How are you?'' \<noteq> []"
    by (simp add: strip_How_are_you)
  show ?thesis
    unfolding first
    by (simp add: post_api_chat_sent [OF m2 ne2] strip_How_are_you chat_request_def
          user_message_def assistant_message_def)
qed

theorem transcript_accumulates_witness:
  "chat_history (fst (snd (post_api_chat greeting_endpoint example_client
                             (JObj [(''message'', JStr ''Hi'')]) no_cookie no_io)))
     = Some [\<lparr>role = ''user'', content = JStr ''Hi''\<rparr>,
             \<lparr>role = ''assistant'', content = JStr ''Hello!''\<rparr>]
   \<and> sent (snd (snd (post_api_chat greeting_endpoint example_client
                     (JObj [(''message'', JStr ''How are you?'')])
                     (fst (snd (post_api_chat greeting_endpoint example_client
                                  (JObj [(''message'', JStr ''Hi'')]) no_cookie no_io)))
                     (snd (snd (post_api_chat greeting_endpoint example_client
                                  (JObj [(''message'', JStr ''Hi'')]) no_cookie no_io))))))
     = [\<lparr>http_method = POST, url = ''http://localhost:8080/v1/chat/completions'',
         headers = [(''Content-Type'', ''application/json'')],
         json_body =
           Some \<lparr>p_model = ''Qwen/Qwen2.5-1.5B-Instruct'',
                 p_input = Messages [\<lparr>role = ''user'', content = JStr ''Hi''\<rparr>],
                 max_tokens = 200, temperature = 7 / 10, stream = False\<rparr>,
         timeout = 30\<rparr>,
        \<lparr>http_method = POST, url = ''http://localhost:8080/v1/chat/completions'',
         headers = [(''Content-Type'', ''application/json'')],
         json_body =
           Some \<lparr>p_model = ''Qwen/Qwen2.5-1.5B-Instruct'',
                 p_input = Messages [\<lparr>role = ''user'', content = JStr ''Hi''\<rparr>,
                                     \<lparr>role = ''assistant'', content = JStr ''Hello!''\<rparr>,
                                     \<lparr>role = ''user'', content = JStr ''How are you?''\<rparr>],
                 max_tokens = 200, temperature = 7 / 10, stream = False\<rparr>,
         timeout = 30\<rparr>]"
proof -
  have fresh: "chat_history no_cookie = None \<or> chat_history no_cookie = Some []"
    by (simp add: no_cookie_def)
  have ok: "fst (web_chat_completion greeting_endpoint example_client
                   [\<lparr>role = ''user'', content = JStr ''Hi''\<rparr>] 200 (7 / 10) no_io)
              = Inr (Success (JStr ''Hello!'') (JObj []))"
    by (simp add: web_chat_completion_def requests_send_eq bind_res_def
          greeting_endpoint_def raise_for_status_def response_json_def chat_content_def)
  show ?thesis
    using transcript_accumulates [OF fresh ok]
    by (simp add: no_io_def example_client_def MODEL_NAME_def)
qed

text \<open>
  Claim C10. For every POST to \<open>/api/chat\<close> whose message is not empty after
  stripping, when the completion fails (the web client returns
  \<open>{success: false, error}\<close>), the route answers with status 500 and the body
  \<open>{success: false, error}\<close>, and the cookie of the browser is the one it held before
  the request: the route assigns the transcript to the session on the path of success
  only, so the next request of the session starts from the transcript as it was before
  the failure.
\<close>

theorem failed_completion_keeps_transcript:
  assumes "map_of kvs ''message'' = Some (JStr m)" and "str_strip m \<noteq> []"
    and "fst (web_chat_completion ep client
               ((case chat_history cookie of None \<Rightarrow> [] | Some h \<Rightarrow> h)
                  @ [user_message (str_strip m)]) 200 (7 / 10) w) = Inr (Failure e)"
  shows "fst (post_api_chat ep client (JObj kvs) cookie w) =
           Inr \<lparr>status = 500,
                rbody = JObj [(''success'', JBool False), (''error'', JStr e)]\<rparr>
         \<and> fst (snd (post_api_chat ep client (JObj kvs) cookie w)) = cookie"
  using post_api_chat_failure [OF assms] by (simp add: jsonify_def)

theorem failed_completion_keeps_transcript_witness:
  "fst (post_api_chat refusing_endpoint example_client (JObj [(''message'', JStr ''Hi'')])
          \<lparr>session_id = Some ''s1'',
           chat_history = Some [user_message ''Hello'', assistant_message (JStr ''Hello!'')]\<rparr>
          no_io) =
     Inr \<lparr>status = 500,
          rbody = JObj [(''success'', JBool False), (''error'', JStr ''Connection refused'')]\<rparr>
   \<and> fst (snd (post_api_chat refusing_endpoint example_client
                 (JObj [(''message'', JStr ''Hi'')])
                 \<lparr>session_id = Some ''s1'',
                  chat_history = Some [user_message ''Hello'',
                                       assistant_message (JStr ''Hello!'')]\<rparr>
                 no_io)) =
     \<lparr>session_id = Some ''s1'',
      chat_history = Some [user_message ''Hello'', assistant_message (JStr ''Hello!'')]\<rparr>"
proof -
  let ?cookie = "\<lparr>session_id = Some ''s1'',
      chat_history = Some [user_message ''Hello'', assistant_message (JStr ''Hello!'')]\<rparr>"
  have m: "map_of [(''message'', JStr ''Hi'')] ''message'' = Some (JStr ''Hi'')"
    by simp
  have ne: "str_strip ''Hi'' \<noteq> []"
    by (simp add: strip_Hi)
  have failed: "fst (web_chat_completion refusing_endpoint example_client
               ((case chat_history ?cookie of None \<Rightarrow> [] | Some h \<Rightarrow> h)
                  @ [user_message (str_strip ''Hi'')]) 200 (7 / 10) no_io)
          = Inr (Failure ''Connection refused'')"
    by (simp add: web_chat_completion_def requests_send_eq bind_res_def
          refusing_endpoint_def)
  show ?thesis
    using failed_completion_keeps_transcript [OF m ne failed] by simp
qed

end
